theory Spec2Isabelle
  imports Complex_Main
begin

section \<open>Rotation values\<close>

text \<open>
  The plugin stores rotations as \<^verbatim>\<open>Eigen::Quaterniond\<close> and composes them from
  \<^verbatim>\<open>Eigen::AngleAxisd\<close> values. The Eigen operations the two source files call are
  written out here over the real numbers: a \<^verbatim>\<open>double\<close> is read as the real it denotes and
  rounding is left out.
\<close>

type_synonym vec3 = "real \<times> real \<times> real"

type_synonym mat3 = "vec3 \<times> vec3 \<times> vec3"

record quat =
  qw :: real
  qx :: real
  qy :: real
  qz :: real

definition Quaternion :: "real \<Rightarrow> real \<Rightarrow> real \<Rightarrow> real \<Rightarrow> quat" where
  \<comment> \<open>\<^verbatim>\<open>Eigen::Quaterniond(w, x, y, z)\<close>\<close>
  "Quaternion w x y z = \<lparr>qw = w, qx = x, qy = y, qz = z\<rparr>"

definition Unit :: "nat \<Rightarrow> vec3" where
  \<comment> \<open>\<^verbatim>\<open>Eigen::Vector3d::Unit(i)\<close>; Eigen asserts \<open>i < 3\<close>, and the parser stores no other index\<close>
  "Unit i = (if i = 0 then 1 else 0, if i = 1 then 1 else 0, if i = 2 then 1 else 0)"

definition AngleAxis :: "real \<Rightarrow> vec3 \<Rightarrow> quat" where
  \<comment> \<open>the quaternion an \<^verbatim>\<open>Eigen::AngleAxisd(angle, axis)\<close> converts to when it is multiplied\<close>
  "AngleAxis angle axis =
     (case axis of (x, y, z) \<Rightarrow>
        \<lparr>qw = cos (angle / 2), qx = sin (angle / 2) * x,
         qy = sin (angle / 2) * y, qz = sin (angle / 2) * z\<rparr>)"

definition qmul :: "quat \<Rightarrow> quat \<Rightarrow> quat" where
  \<comment> \<open>\<^verbatim>\<open>operator*\<close> on quaternions (and on angle-axis values, which convert first)\<close>
  "qmul a b =
     \<lparr>qw = qw a * qw b - qx a * qx b - qy a * qy b - qz a * qz b,
      qx = qw a * qx b + qx a * qw b + qy a * qz b - qz a * qy b,
      qy = qw a * qy b + qy a * qw b + qz a * qx b - qx a * qz b,
      qz = qw a * qz b + qz a * qw b + qx a * qy b - qy a * qx b\<rparr>"

definition squaredNorm :: "quat \<Rightarrow> real" where
  "squaredNorm a = qw a * qw a + qx a * qx a + qy a * qy a + qz a * qz a"

definition qdiff :: "quat \<Rightarrow> quat \<Rightarrow> quat" where
  "qdiff a b = \<lparr>qw = qw a - qw b, qx = qx a - qx b, qy = qy a - qy b, qz = qz a - qz b\<rparr>"

definition dummy_precision :: real where
  \<comment> \<open>\<^verbatim>\<open>NumTraits<double>::dummy_precision()\<close>\<close>
  "dummy_precision = 1 / 1000000000000"

definition approx_within :: "real \<Rightarrow> quat \<Rightarrow> quat \<Rightarrow> bool" where
  \<comment> \<open>\<^verbatim>\<open>a.isApprox(b, prec)\<close>: the coefficient vectors are compared, so \<open>q\<close> and \<open>-q\<close>
      differ\<close>
  "approx_within prec a b \<longleftrightarrow>
     squaredNorm (qdiff a b) \<le> prec * prec * min (squaredNorm a) (squaredNorm b)"

definition isApprox :: "quat \<Rightarrow> quat \<Rightarrow> bool" where
  \<comment> \<open>\<^verbatim>\<open>a.isApprox(b)\<close> on \<^verbatim>\<open>Eigen::Quaterniond\<close>\<close>
  "isApprox a b \<longleftrightarrow> approx_within dummy_precision a b"

definition toRotationMatrix :: "quat \<Rightarrow> mat3" where
  \<comment> \<open>\<^verbatim>\<open>q.matrix()\<close>\<close>
  "toRotationMatrix q =
     (let tx = 2 * qx q; ty = 2 * qy q; tz = 2 * qz q;
          twx = tx * qw q; twy = ty * qw q; twz = tz * qw q;
          txx = tx * qx q; txy = ty * qx q; txz = tz * qx q;
          tyy = ty * qy q; tyz = tz * qy q; tzz = tz * qz q
      in ((1 - (tyy + tzz), txy - twz, txz + twy),
          (txy + twz, 1 - (txx + tzz), tyz - twx),
          (txz - twy, tyz + twx, 1 - (txx + tyy))))"

definition to_degrees :: "real \<Rightarrow> real" where
  \<comment> \<open>\<^verbatim>\<open>angles::to_degrees\<close>\<close>
  "to_degrees radians = radians * 180 / pi"

definition from_degrees :: "real \<Rightarrow> real" where
  \<comment> \<open>\<^verbatim>\<open>angles::from_degrees\<close>\<close>
  "from_degrees degrees = degrees * pi / 180"

section \<open>Axis specifications\<close>

datatype invalid_axes =
    InvalidAxes
  | InvalidAxesMsg string
  | InvalidAxisChar char

definition what :: "invalid_axes \<Rightarrow> string" where
  \<comment> \<open>the three constructors of \<^verbatim>\<open>EulerProperty::invalid_axes\<close>, lines 42-55\<close>
  "what e =
     (case e of
        InvalidAxes \<Rightarrow> ''invalid axes string: expecting 3 axis specs from x,y,z''
      | InvalidAxesMsg msg \<Rightarrow> msg
      | InvalidAxisChar axis \<Rightarrow> ''invalid axis char: '' @ [axis] @ '' (only xyz allowed)'')"

definition constData :: "string \<Rightarrow> string" where
  \<comment> \<open>the NUL-terminated bytes \<^verbatim>\<open>toLatin1().constData()\<close> points at, up to the terminator\<close>
  "constData s = takeWhile (\<lambda>c. c \<noteq> CHR 0x00) s"

definition axis_index :: "char \<Rightarrow> nat option \<Rightarrow> char \<Rightarrow> invalid_axes + nat" where
  \<comment> \<open>one round of the loop of lines 153-158: \<open>first\<close> is \<^verbatim>\<open>*pc\<close>, \<open>prev\<close> is
      \<^verbatim>\<open>axes[i-1]\<close> (none when \<open>i = 0\<close>), \<open>c\<close> is \<^verbatim>\<open>pc[i]\<close>\<close>
  "axis_index first prev c =
     (let idx = int (of_char c) - int (of_char (CHR ''x''))
      in if idx < 0 \<or> 2 < idx then Inl (InvalidAxisChar first)
         else if prev = Some (nat idx)
           then Inl (InvalidAxesMsg ''consecutive axes need to be different'')
         else Inr (nat idx))"

definition parse_axes :: "string \<Rightarrow> invalid_axes + (bool \<times> nat \<times> nat \<times> nat)" where
  \<comment> \<open>lines 133-158 of \<^verbatim>\<open>EulerProperty::setEulerAxes\<close>; in each pair below the
      second component is the byte string \<^verbatim>\<open>pc\<close> points at after line 145\<close>
  "parse_axes axes_spec =
     (let sAxes = (if axes_spec = ''rpy'' then ''sxyz'' else axes_spec);
          bytes = constData sAxes;
          frame = (case bytes of
                     [] \<Rightarrow> (False, [])
                   | c # rest \<Rightarrow>
                       if c = CHR ''s'' then (True, rest)
                       else if c = CHR ''r'' then (False, rest)
                       else (False, bytes))
      in if axes_spec = [] \<or> length (snd frame) \<noteq> 3 then Inl InvalidAxes
         else
           (case snd frame of
              [c0, c1, c2] \<Rightarrow>
                (case axis_index c0 None c0 of
                   Inl e \<Rightarrow> Inl e
                 | Inr a0 \<Rightarrow>
                     (case axis_index c0 (Some a0) c1 of
                        Inl e \<Rightarrow> Inl e
                      | Inr a1 \<Rightarrow>
                          (case axis_index c0 (Some a1) c2 of
                             Inl e \<Rightarrow> Inl e
                           | Inr a2 \<Rightarrow> Inr (fst frame, a0, a1, a2))))
            | _ \<Rightarrow> Inl InvalidAxes))"

section \<open>Euler decomposition\<close>

text \<open>
  \<^verbatim>\<open>updateAngles\<close> calls Eigen's \<^verbatim>\<open>MatrixBase::eulerAngles\<close>. The operations of the
  plugin take the decomposition routine as a parameter, so what is proved of them holds
  for whatever a given Eigen version computes. \<open>eulerAngles\<close> below is the routine of
  Eigen 3.3 over the reals; it is what the concrete runs in this theory decompose with.
\<close>

type_synonym decomposition = "mat3 \<Rightarrow> nat \<Rightarrow> nat \<Rightarrow> nat \<Rightarrow> vec3"

definition atan2 :: "real \<Rightarrow> real \<Rightarrow> real" where
  \<comment> \<open>\<^verbatim>\<open>std::atan2\<close> on reals. The reals have one zero, read here as \<open>+0.0\<close>: for
      \<open>x < 0\<close> the value at \<open>y = 0\<close> is \<open>\<pi>\<close>, where \<^verbatim>\<open>std::atan2(-0.0, x)\<close> is \<open>-\<pi>\<close>.
      The concrete runs below never call it with \<open>y = 0\<close> and \<open>x < 0\<close>\<close>
  "atan2 y x =
     (if 0 < x then arctan (y / x)
      else if x < 0 then (if 0 \<le> y then arctan (y / x) + pi else arctan (y / x) - pi)
      else if 0 < y then pi / 2
      else if y < 0 then - (pi / 2)
      else 0)"

definition coeff :: "mat3 \<Rightarrow> nat \<Rightarrow> nat \<Rightarrow> real" where
  \<comment> \<open>\<^verbatim>\<open>coeff(i, j)\<close>: row \<open>i\<close>, column \<open>j\<close>\<close>
  "coeff m i j =
     (case m of (r0, r1, r2) \<Rightarrow>
        (case (if i = 0 then r0 else if i = 1 then r1 else r2) of
           (c0, c1, c2) \<Rightarrow> if j = 0 then c0 else if j = 1 then c1 else c2))"

definition norm2 :: "real \<Rightarrow> real \<Rightarrow> real" where
  \<comment> \<open>\<^verbatim>\<open>Vector2(a, b).norm()\<close>\<close>
  "norm2 a b = sqrt (a * a + b * b)"

definition eulerAngles :: decomposition where
  \<comment> \<open>\<^verbatim>\<open>m.eulerAngles(a0, a1, a2)\<close> of \<^verbatim>\<open>Eigen/src/Geometry/EulerAngles.h\<close>\<close>
  "eulerAngles m a0 a1 a2 =
     (let odd = ((a0 + 1) mod 3 \<noteq> a1);
          i = a0;
          j = (a0 + 1 + (if odd then 1 else 0)) mod 3;
          k = (a0 + 2 - (if odd then 1 else 0)) mod 3;
          res =
            (if a0 = a2 then
               (let r0 = atan2 (coeff m j i) (coeff m k i);
                    wrap = ((odd \<and> r0 < 0) \<or> (\<not> odd \<and> 0 < r0));
                    r0' = (if wrap then (if 0 < r0 then r0 - pi else r0 + pi) else r0);
                    s2 = norm2 (coeff m j i) (coeff m k i);
                    r1 = (if wrap then - atan2 s2 (coeff m i i) else atan2 s2 (coeff m i i));
                    s1 = sin r0';
                    c1 = cos r0';
                    r2 = atan2 (c1 * coeff m j k - s1 * coeff m k k)
                               (c1 * coeff m j j - s1 * coeff m k j)
                in (r0', r1, r2))
             else
               (let r0 = atan2 (coeff m j k) (coeff m k k);
                    c2 = norm2 (coeff m i i) (coeff m i j);
                    wrap = ((odd \<and> r0 < 0) \<or> (\<not> odd \<and> 0 < r0));
                    r0' = (if wrap then (if 0 < r0 then r0 - pi else r0 + pi) else r0);
                    r1 = (if wrap then atan2 (- coeff m i k) (- c2)
                          else atan2 (- coeff m i k) c2);
                    s1 = sin r0';
                    c1 = cos r0';
                    r2 = atan2 (s1 * coeff m k i - c1 * coeff m j i)
                               (c1 * coeff m j j - s1 * coeff m k j)
                in (r0', r1, r2)))
      in if odd then res else (case res of (r0, r1, r2) \<Rightarrow> (- r0, - r1, - r2)))"

section \<open>EulerProperty\<close>

datatype signal =
    AboutToChange
  | QuaternionChanged quat
  | Changed

record EulerProperty =
  quaternion :: quat
  axes_string :: string
  axes :: "nat \<times> nat \<times> nat"
  fixed :: bool
  ignore_child_updates :: bool
  euler :: vec3
  euler_names :: "string \<times> string \<times> string"

text \<open>
  The fields carry the names of the members without the trailing underscore.
  \<open>euler\<close> holds the values of the three \<^verbatim>\<open>FloatProperty\<close> children (degrees) and
  \<open>euler_names\<close> their names. The summary text \<^verbatim>\<open>value_\<close> that \<^verbatim>\<open>updateString\<close>
  formats from these fields is not part of the record. An operation returns the signals
  the property emits, in order, with the state it leaves.
\<close>

definition compose :: "bool \<Rightarrow> nat \<times> nat \<times> nat \<Rightarrow> vec3 \<Rightarrow> quat" where
  \<comment> \<open>lines 91-99: the local \<^verbatim>\<open>q\<close> of \<^verbatim>\<open>setEulerAngles\<close>\<close>
  "compose fx ax angles =
     (case ax of (a0, a1, a2) \<Rightarrow>
        (case angles of (e0, e1, e2) \<Rightarrow>
           if fx
           then qmul (qmul (AngleAxis e2 (Unit a2)) (AngleAxis e1 (Unit a1)))
                     (AngleAxis e0 (Unit a0))
           else qmul (qmul (AngleAxis e0 (Unit a0)) (AngleAxis e1 (Unit a1)))
                     (AngleAxis e2 (Unit a2))))"

definition push_to_children :: "vec3 \<Rightarrow> EulerProperty \<Rightarrow> EulerProperty" where
  \<comment> \<open>lines 103-108. Each child's \<^verbatim>\<open>setValue\<close> runs with the flag set, so the slots
      \<^verbatim>\<open>emitAboutToChange\<close> and \<^verbatim>\<open>updateFromChildren\<close> its signals reach return at once\<close>
  "push_to_children angles p =
     (if \<not> ignore_child_updates p then
        (let p1 = p\<lparr>ignore_child_updates := True\<rparr>;
             p2 = (case angles of (e0, e1, e2) \<Rightarrow>
                     p1\<lparr>euler := (to_degrees e0, to_degrees e1, to_degrees e2)\<rparr>)
         in p2\<lparr>ignore_child_updates := False\<rparr>)
      else p)"

definition store_angles :: "quat \<Rightarrow> vec3 \<Rightarrow> EulerProperty \<Rightarrow> signal list \<times> EulerProperty" where
  \<comment> \<open>lines 102-117: the branch of \<^verbatim>\<open>setEulerAngles\<close> taken when \<^verbatim>\<open>normalize\<close> is false\<close>
  "store_angles q angles p =
     (let p1 = push_to_children angles p
      in if \<not> isApprox (quaternion p1) q
         then ([AboutToChange, QuaternionChanged q, Changed], p1\<lparr>quaternion := q\<rparr>)
         else ([AboutToChange, Changed], p1))"

definition decompose :: "decomposition \<Rightarrow> EulerProperty \<Rightarrow> vec3" where
  \<comment> \<open>lines 219-224\<close>
  "decompose ea p =
     (case axes p of (a0, a1, a2) \<Rightarrow>
        if fixed p
        then (case ea (toRotationMatrix (quaternion p)) a2 a1 a0 of (x, y, z) \<Rightarrow> (z, y, x))
        else ea (toRotationMatrix (quaternion p)) a0 a1 a2)"

definition updateAngles :: "decomposition \<Rightarrow> EulerProperty \<Rightarrow> signal list \<times> EulerProperty" where
  \<comment> \<open>lines 217-226: \<^verbatim>\<open>setEulerAngles(e.data(), false)\<close>\<close>
  "updateAngles ea p =
     (let e = decompose ea p in store_angles (compose (fixed p) (axes p) e) e p)"

definition setQuaternion :: "decomposition \<Rightarrow> quat \<Rightarrow> EulerProperty \<Rightarrow> signal list \<times> EulerProperty" where
  \<comment> \<open>lines 81-87\<close>
  "setQuaternion ea q p =
     (if isApprox (quaternion p) q then ([], p)
      else updateAngles ea (p\<lparr>quaternion := q\<rparr>))"

definition setEulerAngles ::
  "decomposition \<Rightarrow> vec3 \<Rightarrow> bool \<Rightarrow> EulerProperty \<Rightarrow> signal list \<times> EulerProperty" where
  \<comment> \<open>lines 89-118; \<open>normalise\<close> is the parameter \<^verbatim>\<open>normalize\<close>\<close>
  "setEulerAngles ea angles normalise p =
     (let q = compose (fixed p) (axes p) angles
      in if normalise then setQuaternion ea q p else store_angles q angles p)"

definition xyzNames :: "nat \<Rightarrow> string" where
  "xyzNames i = (if i = 0 then ''x'' else if i = 1 then ''y'' else ''z'')"

definition accept_axes ::
  "string \<Rightarrow> bool \<Rightarrow> nat \<times> nat \<times> nat \<Rightarrow> EulerProperty \<Rightarrow> EulerProperty" where
  \<comment> \<open>lines 160-166\<close>
  "accept_axes axes_spec fx a p =
     (case a of (a0, a1, a2) \<Rightarrow>
        p\<lparr>axes_string := axes_spec, fixed := fx, axes := (a0, a1, a2),
          euler_names := (xyzNames a0, xyzNames a1, xyzNames a2)\<rparr>)"

definition setEulerAxes ::
  "decomposition \<Rightarrow> string \<Rightarrow> EulerProperty \<Rightarrow> invalid_axes + signal list \<times> EulerProperty" where
  \<comment> \<open>lines 126-170\<close>
  "setEulerAxes ea axes_spec p =
     (if axes_string p = axes_spec then Inr ([], p)
      else
        (case parse_axes axes_spec of
           Inl e \<Rightarrow> Inl e
         | Inr (fx, a) \<Rightarrow> Inr (updateAngles ea (accept_axes axes_spec fx a p))))"

definition updateFromChildren :: "EulerProperty \<Rightarrow> signal list \<times> EulerProperty" where
  \<comment> \<open>lines 199-209; with \<^verbatim>\<open>normalize\<close> false \<^verbatim>\<open>setEulerAngles\<close> is \<open>store_angles\<close>\<close>
  "updateFromChildren p =
     (if ignore_child_updates p then ([], p)
      else
        (let angles = (case euler p of (d0, d1, d2) \<Rightarrow>
                         (from_degrees d0, from_degrees d1, from_degrees d2));
             p1 = p\<lparr>ignore_child_updates := True\<rparr>;
             r = store_angles (compose (fixed p1) (axes p1) angles) angles p1
         in (fst r, (snd r)\<lparr>ignore_child_updates := False\<rparr>)))"

definition emitAboutToChange :: "EulerProperty \<Rightarrow> signal list" where
  \<comment> \<open>lines 211-215\<close>
  "emitAboutToChange p = (if ignore_child_updates p then [] else [AboutToChange])"

definition set_child :: "nat \<Rightarrow> real \<Rightarrow> vec3 \<Rightarrow> vec3" where
  \<comment> \<open>the child values with the value of child \<open>i\<close> replaced\<close>
  "set_child i v e =
     (case e of (d0, d1, d2) \<Rightarrow>
        if i = 0 then (v, d1, d2) else if i = 1 then (d0, v, d2) else (d0, d1, v))"

definition child_setValue :: "nat \<Rightarrow> real \<Rightarrow> EulerProperty \<Rightarrow> signal list \<times> EulerProperty" where
  \<comment> \<open>\<^verbatim>\<open>euler_[i]->setValue(v)\<close> with the connections of lines 75-78: a child whose value
      changes emits \<^verbatim>\<open>aboutToChange\<close>, stores it and emits \<^verbatim>\<open>changed\<close>\<close>
  "child_setValue i v p =
     (if set_child i v (euler p) = euler p then ([], p)
      else
        (let s1 = emitAboutToChange p;
             r = updateFromChildren (p\<lparr>euler := set_child i v (euler p)\<rparr>)
         in (s1 @ fst r, snd r)))"

definition EulerProperty_new ::
  "decomposition \<Rightarrow> quat \<Rightarrow> invalid_axes + signal list \<times> EulerProperty" where
  \<comment> \<open>the constructor, lines 57-79; \<open>axes\<close> and \<open>fixed\<close> hold no value before
      \<^verbatim>\<open>setEulerAxes("rpy")\<close> assigns them\<close>
  "EulerProperty_new ea v =
     setEulerAxes ea ''rpy''
       \<lparr>quaternion = v, axes_string = [], axes = (0, 0, 0), fixed = False,
        ignore_child_updates = False, euler = (0, 0, 0), euler_names = ([], [], [])\<rparr>"

section \<open>Free-text values and persisted state\<close>

definition isSpace :: "char \<Rightarrow> bool" where
  \<comment> \<open>what \<^verbatim>\<open>\s\<close> matches among the Latin-1 characters\<close>
  "isSpace c \<longleftrightarrow>
     c \<in> set [CHR 0x09, CHR 0x0A, CHR 0x0B, CHR 0x0C, CHR 0x0D, CHR 0x20, CHR 0x85, CHR 0xA0]"

definition isLower :: "char \<Rightarrow> bool" where
  \<comment> \<open>\<^verbatim>\<open>[a-z]\<close>\<close>
  "isLower c \<longleftrightarrow>
     (of_char (CHR ''a'') :: nat) \<le> of_char c \<and> (of_char c :: nat) \<le> of_char (CHR ''z'')"

definition axesSpec_at :: "string \<Rightarrow> (string \<times> nat) option" where
  \<comment> \<open>the expression \<^verbatim>\<open>\s*([a-z]+)\s*:?\<close> of line 174 matched at the head of \<open>s\<close>:
      the text of group 1 and the length of the match\<close>
  "axesSpec_at s =
     (let r1 = dropWhile isSpace s;
          cap = takeWhile isLower r1;
          r2 = dropWhile isSpace (dropWhile isLower r1);
          colon = (case r2 of [] \<Rightarrow> 0 | c # _ \<Rightarrow> if c = CHR 0x3A then 1 else 0)
      in if cap = [] then None else Some (cap, length s - length r2 + colon))"

fun axesSpec_indexIn :: "string \<Rightarrow> (string \<times> nat) option" where
  \<comment> \<open>\<^verbatim>\<open>axesSpec.indexIn(s)\<close>: the leftmost match, as \<^verbatim>\<open>cap(1)\<close> and \<^verbatim>\<open>matchedLength()\<close>\<close>
  "axesSpec_indexIn [] = None"
| "axesSpec_indexIn (c # cs) =
     (case axesSpec_at (c # cs) of
        Some m \<Rightarrow> Some m
      | None \<Rightarrow> axesSpec_indexIn cs)"

fun qsplit :: "char \<Rightarrow> string \<Rightarrow> string list" where
  \<comment> \<open>\<^verbatim>\<open>QString::split(sep)\<close>, empty fields kept\<close>
  "qsplit sep [] = [[]]"
| "qsplit sep (c # cs) =
     (if c = sep then [] # qsplit sep cs
      else (case qsplit sep cs of [] \<Rightarrow> [[c]] | x # xs \<Rightarrow> (c # x) # xs))"

definition parse_angles :: "(string \<Rightarrow> real option) \<Rightarrow> string list \<Rightarrow> vec3 option" where
  \<comment> \<open>lines 190-194; \<open>toDouble\<close> is \<^verbatim>\<open>QString::toDouble\<close>, \<open>None\<close> when it clears \<^verbatim>\<open>ok\<close>\<close>
  "parse_angles toDouble strings =
     (case strings of
        s0 # s1 # s2 # _ \<Rightarrow>
          (case toDouble s0 of
             None \<Rightarrow> None
           | Some d0 \<Rightarrow>
               (case toDouble s1 of
                  None \<Rightarrow> None
                | Some d1 \<Rightarrow>
                    (case toDouble s2 of
                       None \<Rightarrow> None
                     | Some d2 \<Rightarrow> Some (from_degrees d0, from_degrees d1, from_degrees d2))))
      | _ \<Rightarrow> None)"

definition setValue ::
  "decomposition \<Rightarrow> (string \<Rightarrow> real option) \<Rightarrow> string \<Rightarrow> EulerProperty
     \<Rightarrow> bool option \<times> signal list \<times> EulerProperty" where
  \<comment> \<open>lines 172-197. The first component is the value returned; it is \<open>None\<close> where
      control leaves the function at line 197, past the last statement, with no
      \<^verbatim>\<open>return\<close>\<close>
  "setValue ea toDouble v p =
     (case (case axesSpec_indexIn v of
              None \<Rightarrow> Inr (v, [], p)
            | Some (cap1, matchedLength) \<Rightarrow>
                (case setEulerAxes ea cap1 p of
                   Inl e \<Rightarrow> Inl e
                 | Inr (sg, p1) \<Rightarrow> Inr (drop matchedLength v, sg, p1))) of
        Inl e \<Rightarrow> (Some False, [], p)
      | Inr (s, sg, p1) \<Rightarrow>
          (let strings = qsplit (CHR 0x3B) s
           in if length strings < 3 then (Some False, sg, p1)
              else
                (case parse_angles toDouble strings of
                   None \<Rightarrow> (Some False, sg, p1)
                 | Some angles \<Rightarrow>
                     (case setEulerAngles ea angles False p1 of
                        (sg2, p2) \<Rightarrow> (None, sg @ sg2, p2)))))"

record Config =
  mapGetString :: "string \<Rightarrow> string option"
  mapGetFloat :: "string \<Rightarrow> real option"

text \<open>
  A \<^verbatim>\<open>Config\<close> is read through its two lookups only; each gives \<open>None\<close> where the
  method of rviz returns false (the key is missing or its value has another type).
\<close>

definition load ::
  "decomposition \<Rightarrow> Config \<Rightarrow> EulerProperty \<Rightarrow> invalid_axes + signal list \<times> EulerProperty" where
  \<comment> \<open>lines 238-254\<close>
  "load ea config p =
     (case mapGetString config ''axes'' of
        None \<Rightarrow> Inr ([], p)
      | Some a \<Rightarrow>
          (case mapGetFloat config ''e1'' of
             None \<Rightarrow> Inr ([], p)
           | Some e1 \<Rightarrow>
               (case mapGetFloat config ''e2'' of
                  None \<Rightarrow> Inr ([], p)
                | Some e2 \<Rightarrow>
                    (case mapGetFloat config ''e3'' of
                       None \<Rightarrow> Inr ([], p)
                     | Some e3 \<Rightarrow>
                         (case setEulerAxes ea a p of
                            Inl e \<Rightarrow> Inl e
                          | Inr (sg, p1) \<Rightarrow>
                              (case setEulerAngles ea
                                      (from_degrees e1, from_degrees e2, from_degrees e3)
                                      True p1 of
                                 (sg2, p2) \<Rightarrow> Inr (sg @ sg2, p2)))))))"

section \<open>RotationProperty\<close>

datatype rsignal =
    FromEuler signal
  | QuaternionPropertyChanged
  | UpdateString

record RotationProperty =
  euler_property :: EulerProperty
  quaternion_property :: quat
  rp_ignore_child_updates :: bool
  show_euler_string :: bool

text \<open>
  \<open>quaternion_property\<close> is the value of the \<^verbatim>\<open>rviz::QuaternionProperty\<close> child and
  \<open>rp_ignore_child_updates\<close> the member \<^verbatim>\<open>ignore_child_updates_\<close> of the rotation
  property. An operation returns what its children emit, and \<open>UpdateString\<close> where it
  calls \<^verbatim>\<open>updateString\<close> (which announces a change of the displayed text).
\<close>

definition getQuaternion :: "RotationProperty \<Rightarrow> quat" where
  \<comment> \<open>lines 60-63\<close>
  "getQuaternion rp = quaternion (euler_property rp)"

definition float_precision :: real where
  \<comment> \<open>\<^verbatim>\<open>NumTraits<float>::dummy_precision()\<close>\<close>
  "float_precision = 1 / 100000"

definition isApprox_float :: "quat \<Rightarrow> quat \<Rightarrow> bool" where
  \<comment> \<open>\<^verbatim>\<open>isApprox\<close> on \<^verbatim>\<open>Eigen::Quaternion<Ogre::Real>\<close>, line 96\<close>
  "isApprox_float a b \<longleftrightarrow> approx_within float_precision a b"

definition quaternion_property_set :: "quat \<Rightarrow> RotationProperty \<Rightarrow> rsignal list \<times> RotationProperty" where
  \<comment> \<open>\<^verbatim>\<open>quaternion_property_->setQuaternion(...)\<close> at lines 72 and 80: a new value is
      stored and announced. The slot \<^verbatim>\<open>updateFromQuaternion\<close> the announcement reaches
      returns at line 90 or at line 96: either the flag is set or the value is the one the
      Euler property has just stored\<close>
  "quaternion_property_set q rp =
     (if quaternion_property rp = q then ([], rp)
      else ([QuaternionPropertyChanged], rp\<lparr>quaternion_property := q\<rparr>))"

definition updateFromEuler :: "quat \<Rightarrow> RotationProperty \<Rightarrow> rsignal list \<times> RotationProperty" where
  \<comment> \<open>lines 77-85\<close>
  "updateFromEuler q rp =
     (let r = quaternion_property_set q rp
      in if rp_ignore_child_updates (snd r) then r
         else (fst r @ [UpdateString], (snd r)\<lparr>show_euler_string := True\<rparr>))"

fun deliver :: "signal list \<Rightarrow> RotationProperty \<Rightarrow> rsignal list \<times> RotationProperty" where
  \<comment> \<open>the connection of lines 53-54: \<^verbatim>\<open>quaternionChanged\<close> runs \<^verbatim>\<open>updateFromEuler\<close>\<close>
  "deliver [] rp = ([], rp)"
| "deliver (s # ss) rp =
     (let r1 = (case s of QuaternionChanged q \<Rightarrow> updateFromEuler q rp | _ \<Rightarrow> ([], rp));
          r2 = deliver ss (snd r1)
      in (FromEuler s # fst r1 @ fst r2, snd r2))"

definition RotationProperty_setQuaternion ::
  "decomposition \<Rightarrow> quat \<Rightarrow> RotationProperty \<Rightarrow> rsignal list \<times> RotationProperty" where
  \<comment> \<open>lines 65-75\<close>
  "RotationProperty_setQuaternion ea q rp =
     (if isApprox (getQuaternion rp) q then ([], rp)
      else
        (let rp1 = rp\<lparr>rp_ignore_child_updates := True\<rparr>;
             e = setQuaternion ea q (euler_property rp1);
             r2 = deliver (fst e) (rp1\<lparr>euler_property := snd e\<rparr>);
             r3 = quaternion_property_set q (snd r2)
         in (fst r2 @ fst r3, (snd r3)\<lparr>rp_ignore_child_updates := False\<rparr>)))"

definition updateFromQuaternion ::
  "decomposition \<Rightarrow> RotationProperty \<Rightarrow> rsignal list \<times> RotationProperty" where
  \<comment> \<open>lines 87-101\<close>
  "updateFromQuaternion ea rp =
     (if rp_ignore_child_updates rp then ([], rp)
      else if isApprox_float (quaternion_property rp) (getQuaternion rp) then ([], rp)
      else
        (let r = RotationProperty_setQuaternion ea (quaternion_property rp) rp
         in (fst r @ [UpdateString], (snd r)\<lparr>show_euler_string := False\<rparr>)))"

definition RotationProperty_setEulerAngles ::
  "decomposition \<Rightarrow> vec3 \<Rightarrow> bool \<Rightarrow> RotationProperty \<Rightarrow> rsignal list \<times> RotationProperty" where
  \<comment> \<open>lines 103-111\<close>
  "RotationProperty_setEulerAngles ea angles normalise rp =
     (let e = setEulerAngles ea angles normalise (euler_property rp)
      in deliver (fst e) (rp\<lparr>euler_property := snd e\<rparr>))"

definition RotationProperty_setEulerAxes ::
  "decomposition \<Rightarrow> string \<Rightarrow> RotationProperty \<Rightarrow> invalid_axes + rsignal list \<times> RotationProperty" where
  \<comment> \<open>lines 113-116\<close>
  "RotationProperty_setEulerAxes ea axes_spec rp =
     (case setEulerAxes ea axes_spec (euler_property rp) of
        Inl e \<Rightarrow> Inl e
      | Inr (sg, ep) \<Rightarrow> Inr (deliver sg (rp\<lparr>euler_property := ep\<rparr>)))"

definition RotationProperty_load ::
  "decomposition \<Rightarrow> Config \<Rightarrow> RotationProperty \<Rightarrow> invalid_axes + rsignal list \<times> RotationProperty" where
  \<comment> \<open>lines 135-139\<close>
  "RotationProperty_load ea config rp =
     (case load ea config (euler_property rp) of
        Inl e \<Rightarrow> Inl e
      | Inr (sg, ep) \<Rightarrow> Inr (deliver sg (rp\<lparr>euler_property := ep\<rparr>)))"

definition RotationProperty_new ::
  "decomposition \<Rightarrow> quat \<Rightarrow> invalid_axes + RotationProperty" where
  \<comment> \<open>the constructor, lines 39-58; the children are connected once both exist, so what
      the Euler property emits while it is constructed reaches no slot\<close>
  "RotationProperty_new ea v =
     (case EulerProperty_new ea v of
        Inl e \<Rightarrow> Inl e
      | Inr (sg, ep) \<Rightarrow>
          Inr \<lparr>euler_property = ep, quaternion_property = v,
               rp_ignore_child_updates = False, show_euler_string = True\<rparr>)"

section \<open>Predicates of the stated properties\<close>

text \<open>
  The letters of an axis specification and the index each stands for, as the
  specification words them; \<open>axes_consistent\<close> says that the stored frame flag and axis
  indices are those the stored specification string parses to.
\<close>

definition axis_letter :: "char \<Rightarrow> bool" where
  "axis_letter c \<longleftrightarrow> c = CHR ''x'' \<or> c = CHR ''y'' \<or> c = CHR ''z''"

definition letter_index :: "char \<Rightarrow> nat" where
  "letter_index c = (if c = CHR ''x'' then 0 else if c = CHR ''y'' then 1 else 2)"

definition axes_consistent :: "EulerProperty \<Rightarrow> bool" where
  "axes_consistent p \<longleftrightarrow> parse_axes (axes_string p) = Inr (fixed p, axes p)"

text \<open>The property as its constructor leaves it for the identity rotation.\<close>

definition identity_property :: EulerProperty where
  "identity_property =
     \<lparr>quaternion = Quaternion 1 0 0 0, axes_string = ''rpy'', axes = (0, 1, 2), fixed = True,
      ignore_child_updates = False, euler = (0, 0, 0), euler_names = (''x'', ''y'', ''z'')\<rparr>"

definition identity_rotation :: RotationProperty where
  "identity_rotation =
     \<lparr>euler_property = identity_property, quaternion_property = Quaternion 1 0 0 0,
      rp_ignore_child_updates = False, show_euler_string = True\<rparr>"

text \<open>
  Whether a list of signals holds a \<^verbatim>\<open>quaternionChanged\<close>; the quaternion composed from
  the angles \<^verbatim>\<open>updateAngles\<close> decomposes the stored one into; the child values those
  angles give; and a rotation property none of whose two suppression flags is set.
\<close>

fun is_quaternionChanged :: "signal \<Rightarrow> bool" where
  "is_quaternionChanged (QuaternionChanged q) = True"
| "is_quaternionChanged _ = False"

definition quaternionChanged_emitted :: "signal list \<Rightarrow> bool" where
  "quaternionChanged_emitted sg \<longleftrightarrow> list_ex is_quaternionChanged sg"

definition recomposed :: "decomposition \<Rightarrow> EulerProperty \<Rightarrow> quat" where
  "recomposed ea p = compose (fixed p) (axes p) (decompose ea p)"

definition degrees3 :: "vec3 \<Rightarrow> vec3" where
  "degrees3 e = (case e of (e0, e1, e2) \<Rightarrow> (to_degrees e0, to_degrees e1, to_degrees e2))"

definition rotation_idle :: "RotationProperty \<Rightarrow> bool" where
  "rotation_idle rp \<longleftrightarrow>
     \<not> rp_ignore_child_updates rp \<and> \<not> ignore_child_updates (euler_property rp)"

text \<open>
  The quaternion \<open>-q\<close>, which stands for the rotation \<open>q\<close> stands for, and the quaternion
  recomposed after \<^verbatim>\<open>setQuaternion(q)\<close> and \<^verbatim>\<open>updateAngles()\<close>.
\<close>

definition qneg :: "quat \<Rightarrow> quat" where
  "qneg q = \<lparr>qw = - qw q, qx = - qx q, qy = - qy q, qz = - qz q\<rparr>"

definition roundtrip :: "decomposition \<Rightarrow> quat \<Rightarrow> EulerProperty \<Rightarrow> quat" where
  "roundtrip ea q p = recomposed ea (snd (setQuaternion ea q p))"

text \<open>
  Rotations as matrices, rows first: \<open>axis_rotation a t\<close> is the right-handed rotation by
  \<open>t\<close> radians about the basis vector \<open>a\<close>, and \<open>mat_mul\<close> composes two rotations.
\<close>

definition mat_mul :: "mat3 \<Rightarrow> mat3 \<Rightarrow> mat3" where
  "mat_mul a b =
     (case a of ((a00, a01, a02), (a10, a11, a12), (a20, a21, a22)) \<Rightarrow>
      case b of ((b00, b01, b02), (b10, b11, b12), (b20, b21, b22)) \<Rightarrow>
        ((a00 * b00 + a01 * b10 + a02 * b20, a00 * b01 + a01 * b11 + a02 * b21,
          a00 * b02 + a01 * b12 + a02 * b22),
         (a10 * b00 + a11 * b10 + a12 * b20, a10 * b01 + a11 * b11 + a12 * b21,
          a10 * b02 + a11 * b12 + a12 * b22),
         (a20 * b00 + a21 * b10 + a22 * b20, a20 * b01 + a21 * b11 + a22 * b21,
          a20 * b02 + a21 * b12 + a22 * b22)))"

definition axis_rotation :: "nat \<Rightarrow> real \<Rightarrow> mat3" where
  "axis_rotation a t =
     (if a = 0 then ((1, 0, 0), (0, cos t, - sin t), (0, sin t, cos t))
      else if a = 1 then ((cos t, 0, sin t), (0, 1, 0), (- sin t, 0, cos t))
      else ((cos t, - sin t, 0), (sin t, cos t, 0), (0, 0, 1)))"

text \<open>
  What Eigen documents of \<^verbatim>\<open>eulerAngles(b0, b1, b2)\<close>: the matrix it is applied to is the
  product of the rotations by the three returned angles about the axes \<open>b0\<close>, \<open>b1\<close>,
  \<open>b2\<close>, in this order. The predicate speaks of the routine at one matrix and one axis
  triple, and of nothing the plugin does with the angles.
\<close>

definition eulerAngles_exact :: "decomposition \<Rightarrow> mat3 \<Rightarrow> nat \<Rightarrow> nat \<Rightarrow> nat \<Rightarrow> bool" where
  "eulerAngles_exact ea m b0 b1 b2 \<longleftrightarrow>
     (case ea m b0 b1 b2 of
        (x, y, z) \<Rightarrow>
          m = mat_mul (mat_mul (axis_rotation b0 x) (axis_rotation b1 y)) (axis_rotation b2 z))"

text \<open>The rotation matrix of a quaternion in its homogeneous form, an aid to the proofs.\<close>

definition homogeneous_matrix :: "quat \<Rightarrow> mat3" where
  "homogeneous_matrix q =
     (case (qw q, qx q, qy q, qz q) of (w, x, y, z) \<Rightarrow>
        ((w * w + x * x - y * y - z * z, 2 * (x * y - w * z), 2 * (x * z + w * y)),
         (2 * (x * y + w * z), w * w - x * x + y * y - z * z, 2 * (y * z - w * x)),
         (2 * (x * z - w * y), 2 * (y * z + w * x), w * w - x * x - y * y + z * z)))"

section \<open>Parsing axis specifications\<close>

lemma axis_index_letter:
  assumes "axis_letter c"
  shows "axis_index f prev c =
           (if prev = Some (letter_index c)
            then Inl (InvalidAxesMsg ''consecutive axes need to be different'')
            else Inr (letter_index c))"
  using assms by (auto simp: axis_letter_def axis_index_def letter_index_def)

lemma letter_index_inj:
  "axis_letter c \<Longrightarrow> axis_letter d \<Longrightarrow> letter_index c = letter_index d \<longleftrightarrow> c = d"
  by (auto simp: axis_letter_def letter_index_def)

lemma parse_axes_valid:
  assumes "pre = [] \<or> pre = ''s'' \<or> pre = ''r''"
    and "axis_letter c0" "axis_letter c1" "axis_letter c2" "c0 \<noteq> c1" "c1 \<noteq> c2"
  shows "parse_axes (pre @ [c0, c1, c2]) =
           Inr (pre = ''s'', letter_index c0, letter_index c1, letter_index c2)"
proof -
  have nz: "c0 \<noteq> CHR 0x00" "c1 \<noteq> CHR 0x00" "c2 \<noteq> CHR 0x00"
    using assms by (auto simp: axis_letter_def)
  have nsr: "c0 \<noteq> CHR ''s''" "c0 \<noteq> CHR ''r''"
    using assms by (auto simp: axis_letter_def)
  have i01: "letter_index c0 \<noteq> letter_index c1" and i12: "letter_index c1 \<noteq> letter_index c2"
    using assms by (simp_all add: letter_index_inj)
  from assms(1) show ?thesis
  proof (elim disjE)
    assume "pre = []"
    then show ?thesis using assms(2-4) nz nsr i01 i12 by (simp add: parse_axes_def constData_def axis_index_letter)
  next
    assume "pre = ''s''"
    then show ?thesis using assms(2-4) nz nsr i01 i12 by (simp add: parse_axes_def constData_def axis_index_letter)
  next
    assume "pre = ''r''"
    then show ?thesis using assms(2-4) nz nsr i01 i12 by (simp add: parse_axes_def constData_def axis_index_letter)
  qed
qed


lemma push_to_children_fields [simp]:
  "quaternion (push_to_children e p) = quaternion p"
  "axes_string (push_to_children e p) = axes_string p"
  "axes (push_to_children e p) = axes p"
  "fixed (push_to_children e p) = fixed p"
  "euler_names (push_to_children e p) = euler_names p"
  "ignore_child_updates (push_to_children e p) = ignore_child_updates p"
  by (cases e; simp add: push_to_children_def Let_def)+

lemma store_angles_fields [simp]:
  "axes_string (snd (store_angles q e p)) = axes_string p"
  "axes (snd (store_angles q e p)) = axes p"
  "fixed (snd (store_angles q e p)) = fixed p"
  "euler_names (snd (store_angles q e p)) = euler_names p"
  "ignore_child_updates (snd (store_angles q e p)) = ignore_child_updates p"
  by (simp_all add: store_angles_def Let_def)

lemma updateAngles_fields [simp]:
  "axes_string (snd (updateAngles ea p)) = axes_string p"
  "axes (snd (updateAngles ea p)) = axes p"
  "fixed (snd (updateAngles ea p)) = fixed p"
  "euler_names (snd (updateAngles ea p)) = euler_names p"
  "ignore_child_updates (snd (updateAngles ea p)) = ignore_child_updates p"
  by (simp_all add: updateAngles_def Let_def)

lemma setEulerAxes_same: "axes_string p = s \<Longrightarrow> setEulerAxes ea s p = Inr ([], p)"
  by (simp add: setEulerAxes_def)

lemma accept_axes_fields [simp]:
  "axes_string (accept_axes s fx a p) = s"
  "fixed (accept_axes s fx a p) = fx"
  "axes (accept_axes s fx a p) = a"
  "quaternion (accept_axes s fx a p) = quaternion p"
  "euler (accept_axes s fx a p) = euler p"
  "ignore_child_updates (accept_axes s fx a p) = ignore_child_updates p"
  by (cases a; simp add: accept_axes_def)+

lemma setEulerAxes_parsed:
  assumes "axes_string p \<noteq> s" and "parse_axes s = Inr (fx, a)"
  shows "setEulerAxes ea s p = Inr (updateAngles ea (accept_axes s fx a p))"
  using assms by (simp add: setEulerAxes_def)

lemma setEulerAxes_error:
  assumes "axes_string p \<noteq> s" and "parse_axes s = Inl e"
  shows "setEulerAxes ea s p = Inl e"
  using assms by (simp add: setEulerAxes_def)

lemma axes_consistent_updateAngles:
  "axes_consistent (snd (updateAngles ea p)) \<longleftrightarrow> axes_consistent p"
  by (simp add: axes_consistent_def)

lemma setEulerAxes_consistent:
  assumes "axes_consistent p" and "setEulerAxes ea s p = Inr (sg, p')"
  shows "axes_consistent p'"
proof (cases "axes_string p = s")
  case True
  with assms show ?thesis by (simp add: setEulerAxes_same)
next
  case False
  with assms(2) obtain fx a where parsed: "parse_axes s = Inr (fx, a)"
    by (cases "parse_axes s") (auto simp: setEulerAxes_def)
  with False assms(2) have "p' = snd (updateAngles ea (accept_axes s fx a p))"
    by (simp add: setEulerAxes_parsed)
  with parsed show ?thesis
    by (simp add: axes_consistent_updateAngles) (simp add: axes_consistent_def)
qed

lemma EulerProperty_new_consistent:
  assumes "EulerProperty_new ea v = Inr (sg, p)"
  shows "axes_consistent p"
proof -
  have "parse_axes ''rpy'' = Inr (True, 0, 1, 2)"
    by (simp add: parse_axes_def constData_def axis_index_def)
  with assms have "p = snd (updateAngles ea (accept_axes ''rpy'' True (0, 1, 2)
      \<lparr>quaternion = v, axes_string = [], axes = (0, 0, 0), fixed = False,
       ignore_child_updates = False, euler = (0, 0, 0), euler_names = ([], [], [])\<rparr>))"
    by (simp add: EulerProperty_new_def setEulerAxes_def)
  then show ?thesis
    using \<open>parse_axes ''rpy'' = Inr (True, 0, 1, 2)\<close>
    by (simp add: axes_consistent_updateAngles) (simp add: axes_consistent_def)
qed

lemma setQuaternion_consistent:
  "axes_consistent (snd (setQuaternion ea q p)) \<longleftrightarrow> axes_consistent p"
  by (simp add: setQuaternion_def axes_consistent_updateAngles) (simp add: axes_consistent_def)

lemma setEulerAngles_consistent:
  "axes_consistent (snd (setEulerAngles ea e n p)) \<longleftrightarrow> axes_consistent p"
  by (simp add: setEulerAngles_def Let_def setQuaternion_consistent) (simp add: axes_consistent_def)

text \<open>
  C3: every specification made of an optional \<open>s\<close> or \<open>r\<close> and three letters from
  \<open>x\<close>, \<open>y\<close>, \<open>z\<close>, no two neighbours equal, is accepted by \<^verbatim>\<open>setEulerAxes\<close>; the
  frame flag is set exactly for the prefix \<open>s\<close>, and the axis indices are those of the
  letters in order (\<open>x\<close> is 0, \<open>y\<close> is 1, \<open>z\<close> is 2). The property it is applied to
  holds a specification consistent with its flag and indices, as every property does
  once constructed.
\<close>

theorem setEulerAxes_valid_spec:
  assumes "pre = [] \<or> pre = ''s'' \<or> pre = ''r''"
    and "axis_letter c0" and "axis_letter c1" and "axis_letter c2"
    and "c0 \<noteq> c1" and "c1 \<noteq> c2"
    and "axes_consistent p"
  shows "\<exists>sg p'. setEulerAxes ea (pre @ [c0, c1, c2]) p = Inr (sg, p') \<and>
           fixed p' = (pre = ''s'') \<and>
           axes p' = (letter_index c0, letter_index c1, letter_index c2)"
proof -
  let ?s = "pre @ [c0, c1, c2]"
  have parsed: "parse_axes ?s = Inr (pre = ''s'', letter_index c0, letter_index c1, letter_index c2)"
    using assms(1-6) by (rule parse_axes_valid)
  show ?thesis
  proof (cases "axes_string p = ?s")
    case True
    with assms(7) parsed have "fixed p = (pre = ''s'')"
      and "axes p = (letter_index c0, letter_index c1, letter_index c2)"
      by (simp_all add: axes_consistent_def)
    with True show ?thesis by (simp add: setEulerAxes_same)
  next
    case False
    let ?a = "(letter_index c0, letter_index c1, letter_index c2)"
    obtain sg p' where r: "updateAngles ea (accept_axes ?s (pre = ''s'') ?a p) = (sg, p')"
      by (cases "updateAngles ea (accept_axes ?s (pre = ''s'') ?a p)")
    have "fixed p' = (pre = ''s'')" and "axes p' = ?a"
      using updateAngles_fields(2,3)[of ea "accept_axes ?s (pre = ''s'') ?a p"] r by simp_all
    with setEulerAxes_parsed[OF False parsed, of ea] r show ?thesis by simp
  qed
qed

lemma identity_property_consistent: "axes_consistent identity_property"
  by (simp add: axes_consistent_def identity_property_def parse_axes_def constData_def
      axis_index_def)

text \<open>C3 on the specifications \<open>sxyz\<close> and \<open>ryxz\<close>.\<close>

theorem setEulerAxes_valid_spec_witness:
  "(\<exists>sg p'. setEulerAxes eulerAngles ''sxyz'' identity_property = Inr (sg, p') \<and>
      fixed p' = True \<and> axes p' = (0, 1, 2)) \<and>
   (\<exists>sg p'. setEulerAxes eulerAngles ''ryxz'' identity_property = Inr (sg, p') \<and>
      fixed p' = False \<and> axes p' = (1, 0, 2))"
  using setEulerAxes_valid_spec[of "''s''" "CHR ''x''" "CHR ''y''" "CHR ''z''"
          identity_property eulerAngles]
        setEulerAxes_valid_spec[of "''r''" "CHR ''y''" "CHR ''x''" "CHR ''z''"
          identity_property eulerAngles]
        identity_property_consistent
  by (simp add: axis_letter_def letter_index_def)

text \<open>
  C4: a character other than \<open>x\<close>, \<open>y\<close>, \<open>z\<close> is to be named in the error. On \<open>xyq\<close> the
  loop rejects \<open>q\<close> at the third position, and line 155 builds the error from
  \<^verbatim>\<open>*pc\<close>, the first axis character: the message names \<open>x\<close>.
\<close>

theorem parse_reports_first_axis_char:
  "parse_axes ''xyq'' = Inl (InvalidAxisChar (CHR ''x'')) \<and>
   setEulerAxes ea ''xyq'' identity_property = Inl (InvalidAxisChar (CHR ''x'')) \<and>
   what (InvalidAxisChar (CHR ''x'')) = ''invalid axis char: x (only xyz allowed)''"
  by (simp add: setEulerAxes_def identity_property_def parse_axes_def constData_def
      axis_index_def what_def)

section \<open>Composition of the Euler angles\<close>

lemma squaredNorm_qmul: "squaredNorm (qmul a b) = squaredNorm a * squaredNorm b"
  by (simp add: squaredNorm_def qmul_def algebra_simps)

lemma toRotationMatrix_unit:
  assumes "squaredNorm q = 1"
  shows "toRotationMatrix q = homogeneous_matrix q"
proof -
  have "qw q * qw q = 1 - qx q * qx q - qy q * qy q - qz q * qz q"
    using assms by (simp add: squaredNorm_def)
  then show ?thesis
    by (simp add: toRotationMatrix_def homogeneous_matrix_def Let_def algebra_simps)
qed

lemma homogeneous_matrix_qmul:
  "homogeneous_matrix (qmul a b) = mat_mul (homogeneous_matrix a) (homogeneous_matrix b)"
  by (simp add: homogeneous_matrix_def qmul_def mat_mul_def algebra_simps)

lemma toRotationMatrix_qmul:
  assumes "squaredNorm a = 1" and "squaredNorm b = 1"
  shows "toRotationMatrix (qmul a b) = mat_mul (toRotationMatrix a) (toRotationMatrix b)"
proof -
  have "squaredNorm (qmul a b) = 1" using assms by (simp add: squaredNorm_qmul)
  then show ?thesis
    using assms by (simp add: toRotationMatrix_unit homogeneous_matrix_qmul)
qed

lemma squaredNorm_AngleAxis:
  assumes "a < 3"
  shows "squaredNorm (AngleAxis t (Unit a)) = 1"
proof -
  have "cos (t / 2) * cos (t / 2) + sin (t / 2) * sin (t / 2) = 1"
    using sin_cos_squared_add2[of "t / 2"] by (simp add: power2_eq_square)
  moreover from assms have "a = 0 \<or> a = 1 \<or> a = 2" by auto
  ultimately show ?thesis
    by (auto simp: squaredNorm_def AngleAxis_def Unit_def)
qed

lemma toRotationMatrix_AngleAxis:
  assumes "a < 3"
  shows "toRotationMatrix (AngleAxis t (Unit a)) = axis_rotation a t"
proof -
  have c: "cos t = 1 - 2 * (sin (t / 2) * sin (t / 2))"
    using cos_double_sin[of "t / 2"] by (simp add: power2_eq_square)
  have s: "sin t = 2 * sin (t / 2) * cos (t / 2)"
    using sin_double[of "t / 2"] by simp
  from assms have "a = 0 \<or> a = 1 \<or> a = 2" by auto
  then show ?thesis
    by (auto simp: toRotationMatrix_def AngleAxis_def Unit_def axis_rotation_def Let_def c s)
qed


lemma squaredNorm_nonneg: "0 \<le> squaredNorm a"
  by (simp add: squaredNorm_def)

lemma isApprox_refl: "isApprox a a"
  by (simp add: isApprox_def approx_within_def qdiff_def squaredNorm_nonneg
      dummy_precision_def)
    (simp add: squaredNorm_def)

lemma store_angles_quaternion:
  "quaternion (snd (store_angles q e p)) = (if isApprox (quaternion p) q then quaternion p else q)"
  by (simp add: store_angles_def Let_def)

lemma store_angles_approx: "isApprox (quaternion (snd (store_angles q e p))) q"
  by (simp add: store_angles_quaternion isApprox_refl)

lemma squaredNorm_compose:
  assumes "a0 < 3" and "a1 < 3" and "a2 < 3"
  shows "squaredNorm (compose fx (a0, a1, a2) e) = 1"
  using assms by (cases e) (simp add: compose_def squaredNorm_qmul squaredNorm_AngleAxis)

text \<open>
  C2: for a property whose axis indices are valid, the quaternion \<^verbatim>\<open>setEulerAngles\<close>
  computes from the angles \<open>e0\<close>, \<open>e1\<close>, \<open>e2\<close> is the rotation
  \<open>R(axis 2, e2) \<cdot> R(axis 1, e1) \<cdot> R(axis 0, e0)\<close> in the fixed frame and
  \<open>R(axis 0, e0) \<cdot> R(axis 1, e1) \<cdot> R(axis 2, e2)\<close> in the rotating frame, each \<open>R\<close> a
  right-handed rotation about a basis vector; without normalisation it is, up to the
  tolerance of \<^verbatim>\<open>isApprox\<close>, the quaternion the property holds afterwards.
\<close>

theorem setEulerAngles_composition:
  assumes "axes p = (a0, a1, a2)" and "a0 < 3" and "a1 < 3" and "a2 < 3"
  shows "toRotationMatrix (compose (fixed p) (axes p) (e0, e1, e2)) =
           (if fixed p
            then mat_mul (mat_mul (axis_rotation a2 e2) (axis_rotation a1 e1)) (axis_rotation a0 e0)
            else mat_mul (mat_mul (axis_rotation a0 e0) (axis_rotation a1 e1)) (axis_rotation a2 e2)) \<and>
         isApprox (quaternion (snd (setEulerAngles ea (e0, e1, e2) False p)))
           (compose (fixed p) (axes p) (e0, e1, e2))"
proof
  have u: "squaredNorm (AngleAxis e0 (Unit a0)) = 1" "squaredNorm (AngleAxis e1 (Unit a1)) = 1"
    "squaredNorm (AngleAxis e2 (Unit a2)) = 1"
    using assms(2-4) by (simp_all add: squaredNorm_AngleAxis)
  have u21: "squaredNorm (qmul (AngleAxis e2 (Unit a2)) (AngleAxis e1 (Unit a1))) = 1"
    and u01: "squaredNorm (qmul (AngleAxis e0 (Unit a0)) (AngleAxis e1 (Unit a1))) = 1"
    using u by (simp_all add: squaredNorm_qmul)
  show "toRotationMatrix (compose (fixed p) (axes p) (e0, e1, e2)) =
           (if fixed p
            then mat_mul (mat_mul (axis_rotation a2 e2) (axis_rotation a1 e1)) (axis_rotation a0 e0)
            else mat_mul (mat_mul (axis_rotation a0 e0) (axis_rotation a1 e1)) (axis_rotation a2 e2))"
    using assms u u21 u01
    by (simp add: compose_def toRotationMatrix_qmul toRotationMatrix_AngleAxis)
next
  show "isApprox (quaternion (snd (setEulerAngles ea (e0, e1, e2) False p)))
           (compose (fixed p) (axes p) (e0, e1, e2))"
    by (simp add: setEulerAngles_def Let_def store_angles_approx)
qed

text \<open>
  C2 on a quarter turn about \<open>x\<close> in the fixed frame \<open>sxyz\<close>: it takes \<open>y\<close> to \<open>z\<close>.
\<close>

theorem setEulerAngles_composition_witness:
  "toRotationMatrix (compose True (0, 1, 2) (pi / 2, 0, 0)) = ((1, 0, 0), (0, 0, - 1), (0, 1, 0)) \<and>
   isApprox (quaternion (snd (setEulerAngles eulerAngles (pi / 2, 0, 0) False identity_property)))
     (compose True (0, 1, 2) (pi / 2, 0, 0))"
  using setEulerAngles_composition[of identity_property 0 1 2 "pi / 2" 0 0 eulerAngles]
  by (simp add: identity_property_def axis_rotation_def mat_mul_def)

section \<open>Runs from the identity rotation\<close>

lemma toRotationMatrix_identity:
  "toRotationMatrix (Quaternion 1 0 0 0) = ((1, 0, 0), (0, 1, 0), (0, 0, 1))"
  "toRotationMatrix (Quaternion (- 1) 0 0 0) = ((1, 0, 0), (0, 1, 0), (0, 0, 1))"
  by (simp_all add: toRotationMatrix_def Quaternion_def)

lemma eulerAngles_identity:
  "eulerAngles ((1, 0, 0), (0, 1, 0), (0, 0, 1)) 2 (Suc 0) 0 = (0, 0, 0)"
  "eulerAngles ((1, 0, 0), (0, 1, 0), (0, 0, 1)) 0 (Suc 0) 2 = (0, 0, 0)"
  by (simp_all add: eulerAngles_def atan2_def coeff_def norm2_def Let_def)

lemma compose_zero: "compose fx (a0, a1, a2) (0, 0, 0) = Quaternion 1 0 0 0"
  by (simp add: compose_def AngleAxis_def Unit_def qmul_def Quaternion_def)

lemma isApprox_identity:
  "isApprox (Quaternion 1 0 0 0) (Quaternion 1 0 0 0)"
  "\<not> isApprox (Quaternion (- 1) 0 0 0) (Quaternion 1 0 0 0)"
  "\<not> isApprox (Quaternion 1 0 0 0) (Quaternion (- 1) 0 0 0)"
  by (simp_all add: isApprox_def approx_within_def Quaternion_def squaredNorm_def qdiff_def
      dummy_precision_def)

lemma updateAngles_identity_rpy:
  assumes "q = Quaternion 1 0 0 0 \<or> q = Quaternion (- 1) 0 0 0"
  shows "updateAngles eulerAngles (identity_property\<lparr>quaternion := q\<rparr>) =
     (if q = Quaternion 1 0 0 0 then ([AboutToChange, Changed], identity_property)
      else ([AboutToChange, QuaternionChanged (Quaternion 1 0 0 0), Changed], identity_property))"
  using assms
  by (auto simp: updateAngles_def decompose_def identity_property_def toRotationMatrix_identity
      eulerAngles_identity compose_zero store_angles_def push_to_children_def to_degrees_def
      isApprox_identity Let_def)

lemma EulerProperty_new_identity:
  "EulerProperty_new eulerAngles (Quaternion 1 0 0 0) = Inr ([AboutToChange, Changed], identity_property)"
proof -
  have "parse_axes ''rpy'' = Inr (True, 0, 1, 2)"
    by (simp add: parse_axes_def constData_def axis_index_def)
  then show ?thesis
    using updateAngles_identity_rpy[of "Quaternion 1 0 0 0"]
    by (simp add: EulerProperty_new_def setEulerAxes_def accept_axes_def xyzNames_def
        identity_property_def)
qed

lemma setQuaternion_minus_identity:
  "setQuaternion eulerAngles (Quaternion (- 1) 0 0 0) identity_property =
     ([AboutToChange, QuaternionChanged (Quaternion 1 0 0 0), Changed], identity_property)"
proof -
  have "quaternion identity_property = Quaternion 1 0 0 0"
    by (simp add: identity_property_def)
  moreover have "Quaternion (- 1) 0 0 0 \<noteq> Quaternion 1 0 0 0"
    by (simp add: Quaternion_def)
  ultimately show ?thesis
    using updateAngles_identity_rpy[of "Quaternion (- 1) 0 0 0"]
    by (simp add: setQuaternion_def isApprox_identity)
qed

section \<open>Change notification\<close>

lemma isApprox_sym: "isApprox a b \<longleftrightarrow> isApprox b a"
proof -
  have "squaredNorm (qdiff a b) = squaredNorm (qdiff b a)"
    by (simp add: squaredNorm_def qdiff_def algebra_simps)
  then show ?thesis by (simp add: isApprox_def approx_within_def min.commute)
qed

lemma store_angles_signals:
  "fst (store_angles q e p) =
     (if isApprox (quaternion p) q then [AboutToChange, Changed]
      else [AboutToChange, QuaternionChanged q, Changed])"
  by (simp add: store_angles_def Let_def)

lemma store_angles_emitted:
  "quaternionChanged_emitted (fst (store_angles q e p)) \<longleftrightarrow> \<not> isApprox (quaternion p) q"
  by (simp add: store_angles_signals quaternionChanged_emitted_def)

lemma store_angles_changed:
  "\<not> isApprox (quaternion p) (quaternion (snd (store_angles q e p))) \<longleftrightarrow>
     \<not> isApprox (quaternion p) q"
  by (simp add: store_angles_quaternion isApprox_refl)

lemma updateAngles_emitted:
  "quaternionChanged_emitted (fst (updateAngles ea p)) \<longleftrightarrow>
     \<not> isApprox (quaternion p) (recomposed ea p)"
  by (simp add: updateAngles_def Let_def store_angles_emitted recomposed_def)

lemma updateAngles_quaternion:
  "quaternion (snd (updateAngles ea p)) =
     (if isApprox (quaternion p) (recomposed ea p) then quaternion p else recomposed ea p)"
  by (simp add: updateAngles_def Let_def store_angles_quaternion recomposed_def)

lemma updateAngles_changed:
  "\<not> isApprox (quaternion p) (quaternion (snd (updateAngles ea p))) \<longleftrightarrow>
     \<not> isApprox (quaternion p) (recomposed ea p)"
  by (simp add: updateAngles_quaternion isApprox_refl)

lemma setEulerAxes_emitted:
  "(case setEulerAxes ea s p of
      Inl e \<Rightarrow> True
    | Inr (sg, p') \<Rightarrow>
        quaternionChanged_emitted sg \<longleftrightarrow> \<not> isApprox (quaternion p) (quaternion p'))"
proof (cases "axes_string p = s")
  case True
  then show ?thesis
    by (simp add: setEulerAxes_same quaternionChanged_emitted_def isApprox_refl)
next
  case False
  show ?thesis
  proof (cases "parse_axes s")
    case (Inl e)
    with False show ?thesis by (simp add: setEulerAxes_error)
  next
    case (Inr r)
    obtain fx a where r: "r = (fx, a)" by (cases r)
    have "quaternionChanged_emitted (fst (updateAngles ea (accept_axes s fx a p))) \<longleftrightarrow>
            \<not> isApprox (quaternion (accept_axes s fx a p))
                (quaternion (snd (updateAngles ea (accept_axes s fx a p))))"
      by (simp only: updateAngles_emitted updateAngles_changed)
    then show ?thesis
      using False Inr r by (simp add: setEulerAxes_parsed case_prod_beta)
  qed
qed

lemma setQuaternion_emitted:
  "quaternionChanged_emitted (fst (setQuaternion ea q p)) \<longleftrightarrow>
     \<not> isApprox (quaternion p) q \<and> \<not> isApprox q (recomposed ea (p\<lparr>quaternion := q\<rparr>))"
proof (cases "isApprox (quaternion p) q")
  case True
  then show ?thesis by (simp add: setQuaternion_def quaternionChanged_emitted_def)
next
  case False
  then show ?thesis by (simp add: setQuaternion_def updateAngles_emitted)
qed

text \<open>
  When \<^verbatim>\<open>quaternionChanged\<close> is emitted. \<^verbatim>\<open>setEulerAngles\<close> without normalisation and
  \<^verbatim>\<open>setEulerAxes\<close> emit it exactly when the quaternion stored afterwards is not, by
  \<^verbatim>\<open>isApprox\<close>, the one stored before. \<^verbatim>\<open>setQuaternion(q)\<close>, and with it
  \<^verbatim>\<open>setEulerAngles\<close> with normalisation, emits it exactly when \<open>q\<close> is not approximately
  the stored quaternion and the quaternion recomposed from the angles decomposed from
  \<open>q\<close> is not approximately \<open>q\<close>: line 85 has stored \<open>q\<close> before line 111 compares.
\<close>

lemma quaternionChanged_emission:
  "(quaternionChanged_emitted (fst (setEulerAngles ea e False p)) \<longleftrightarrow>
      \<not> isApprox (quaternion p) (quaternion (snd (setEulerAngles ea e False p)))) \<and>
   (case setEulerAxes ea s p of
      Inl err \<Rightarrow> True
    | Inr (sg, p') \<Rightarrow>
        quaternionChanged_emitted sg \<longleftrightarrow> \<not> isApprox (quaternion p) (quaternion p')) \<and>
   (quaternionChanged_emitted (fst (setQuaternion ea q p)) \<longleftrightarrow>
      \<not> isApprox (quaternion p) q \<and> \<not> isApprox q (recomposed ea (p\<lparr>quaternion := q\<rparr>))) \<and>
   setEulerAngles ea e True p = setQuaternion ea (compose (fixed p) (axes p) e) p"
proof (intro conjI)
  show "quaternionChanged_emitted (fst (setEulerAngles ea e False p)) \<longleftrightarrow>
      \<not> isApprox (quaternion p) (quaternion (snd (setEulerAngles ea e False p)))"
    by (simp add: setEulerAngles_def Let_def store_angles_emitted store_angles_changed)
  show "case setEulerAxes ea s p of
      Inl err \<Rightarrow> True
    | Inr (sg, p') \<Rightarrow>
        quaternionChanged_emitted sg \<longleftrightarrow> \<not> isApprox (quaternion p) (quaternion p')"
    by (rule setEulerAxes_emitted)
  show "quaternionChanged_emitted (fst (setQuaternion ea q p)) \<longleftrightarrow>
      \<not> isApprox (quaternion p) q \<and> \<not> isApprox q (recomposed ea (p\<lparr>quaternion := q\<rparr>))"
    by (rule setQuaternion_emitted)
  show "setEulerAngles ea e True p = setQuaternion ea (compose (fixed p) (axes p) e) p"
    by (simp add: setEulerAngles_def)
qed

text \<open>
  On the property constructed for the identity rotation, \<^verbatim>\<open>setQuaternion\<close> with
  \<open>(w, x, y, z) = (-1, 0, 0, 0)\<close> emits \<^verbatim>\<open>quaternionChanged\<close> and leaves the stored
  quaternion equal to the one before.
\<close>

lemma quaternionChanged_without_change:
  "quaternionChanged_emitted
     (fst (setQuaternion eulerAngles (Quaternion (- 1) 0 0 0) identity_property)) \<and>
   quaternion (snd (setQuaternion eulerAngles (Quaternion (- 1) 0 0 0) identity_property))
     = quaternion identity_property \<and>
   isApprox (quaternion identity_property)
     (quaternion (snd (setQuaternion eulerAngles (Quaternion (- 1) 0 0 0) identity_property)))"
  by (simp add: setQuaternion_minus_identity quaternionChanged_emitted_def isApprox_refl)

section \<open>Quarter turns about the first axis\<close>

lemma sqrt2_sq: "sqrt 2 * sqrt 2 = (2::real)"
  by simp

lemma AngleAxis_five_quarter:
  "AngleAxis (5 * pi / 2) (Unit 0) = Quaternion (- (sqrt 2 / 2)) (- (sqrt 2 / 2)) 0 0"
proof -
  have h: "5 * pi / 2 / 2 = pi / 4 + pi" by simp
  show ?thesis
    by (simp only: AngleAxis_def Unit_def h cos_periodic_pi sin_periodic_pi cos_45 sin_45)
      (simp add: Quaternion_def)
qed

lemma AngleAxis_quarter:
  "AngleAxis (pi / 2) (Unit 0) = Quaternion (sqrt 2 / 2) (sqrt 2 / 2) 0 0"
proof -
  have h: "pi / 2 / 2 = pi / 4" by simp
  show ?thesis
    by (simp only: AngleAxis_def Unit_def h cos_45 sin_45) (simp add: Quaternion_def)
qed

lemma AngleAxis_zero: "AngleAxis 0 (Unit a) = Quaternion 1 0 0 0"
  by (simp add: AngleAxis_def Unit_def Quaternion_def)

lemma qmul_one:
  "qmul (Quaternion 1 0 0 0) q = q" "qmul q (Quaternion 1 0 0 0) = q"
  by (simp_all add: qmul_def Quaternion_def)

lemma compose_five_quarter:
  "compose True (0, 1, 2) (5 * pi / 2, 0, 0) = Quaternion (- (sqrt 2 / 2)) (- (sqrt 2 / 2)) 0 0"
  by (simp add: compose_def AngleAxis_zero qmul_one AngleAxis_five_quarter)

lemma compose_quarter:
  "compose False (0, 1, 2) (pi / 2, 0, 0) = Quaternion (sqrt 2 / 2) (sqrt 2 / 2) 0 0"
  by (simp add: compose_def AngleAxis_zero qmul_one AngleAxis_quarter)

lemma toRotationMatrix_quarter:
  "toRotationMatrix (Quaternion (- (sqrt 2 / 2)) (- (sqrt 2 / 2)) 0 0) =
     ((1, 0, 0), (0, 0, - 1), (0, 1, 0))"
  by (simp add: toRotationMatrix_def Quaternion_def)

lemma eulerAngles_quarter:
  "eulerAngles ((1, 0, 0), (0, 0, - 1), (0, 1, 0)) 0 (Suc 0) 2 = (pi / 2, 0, 0)"
  by (simp add: eulerAngles_def atan2_def coeff_def norm2_def Let_def)

lemma not_isApprox:
  assumes "1 / 4 \<le> squaredNorm (qdiff a b)" and "squaredNorm a \<le> 1"
  shows "\<not> isApprox a b"
proof
  assume "isApprox a b"
  then have "squaredNorm (qdiff a b)
      \<le> dummy_precision * dummy_precision * min (squaredNorm a) (squaredNorm b)"
    by (simp add: isApprox_def approx_within_def)
  also have "\<dots> \<le> dummy_precision * dummy_precision * 1"
    using assms(2) by (intro mult_left_mono) (simp_all add: dummy_precision_def)
  also have "\<dots> < 1 / 4" by (simp add: dummy_precision_def)
  finally show False using assms(1) by simp
qed

lemma isApprox_quarter:
  "\<not> isApprox (Quaternion 1 0 0 0) (Quaternion (- (sqrt 2 / 2)) (- (sqrt 2 / 2)) 0 0)"
  "\<not> isApprox (Quaternion (- (sqrt 2 / 2)) (- (sqrt 2 / 2)) 0 0)
       (Quaternion (sqrt 2 / 2) (sqrt 2 / 2) 0 0)"
proof -
  have "squaredNorm (qdiff (Quaternion 1 0 0 0) (Quaternion (- (sqrt 2 / 2)) (- (sqrt 2 / 2)) 0 0))
          = 2 + sqrt 2"
    by (simp add: Quaternion_def squaredNorm_def qdiff_def algebra_simps)
  moreover have "0 \<le> sqrt 2" by simp
  ultimately show
    "\<not> isApprox (Quaternion 1 0 0 0) (Quaternion (- (sqrt 2 / 2)) (- (sqrt 2 / 2)) 0 0)"
    by (intro not_isApprox) (simp_all add: squaredNorm_def Quaternion_def)
  show "\<not> isApprox (Quaternion (- (sqrt 2 / 2)) (- (sqrt 2 / 2)) 0 0)
       (Quaternion (sqrt 2 / 2) (sqrt 2 / 2) 0 0)"
    by (intro not_isApprox) (simp_all add: squaredNorm_def Quaternion_def qdiff_def)
qed


lemma toRotationMatrix_quarter_plus:
  "toRotationMatrix (Quaternion (sqrt 2 / 2) (sqrt 2 / 2) 0 0) =
     ((1, 0, 0), (0, 0, - 1), (0, 1, 0))"
  by (simp add: toRotationMatrix_def Quaternion_def)

lemma eulerAngles_quarter_fixed:
  "eulerAngles ((1, 0, 0), (0, 0, - 1), (0, 1, 0)) 2 (Suc 0) 0 = (0, 0, pi / 2)"
  by (simp add: eulerAngles_def atan2_def coeff_def norm2_def Let_def)

lemma compose_quarter_fixed:
  "compose True (0, 1, 2) (pi / 2, 0, 0) = Quaternion (sqrt 2 / 2) (sqrt 2 / 2) 0 0"
  by (simp add: compose_def AngleAxis_zero qmul_one AngleAxis_quarter)

lemma isApprox_identity_quarter:
  "\<not> isApprox (Quaternion 1 0 0 0) (Quaternion (sqrt 2 / 2) (sqrt 2 / 2) 0 0)"
proof -
  have "sqrt 2 \<le> 3 / 2" by (rule real_le_lsqrt) (simp_all add: power2_eq_square)
  moreover have "squaredNorm (qdiff (Quaternion 1 0 0 0) (Quaternion (sqrt 2 / 2) (sqrt 2 / 2) 0 0))
          = 2 - sqrt 2"
    by (simp add: Quaternion_def squaredNorm_def qdiff_def algebra_simps)
  ultimately show ?thesis
    by (intro not_isApprox) (simp_all add: squaredNorm_def Quaternion_def)
qed

lemma setQuaternion_quarter_turn:
  "setQuaternion eulerAngles (Quaternion (sqrt 2 / 2) (sqrt 2 / 2) 0 0) identity_property =
     ([AboutToChange, Changed],
      identity_property
        \<lparr>quaternion := Quaternion (sqrt 2 / 2) (sqrt 2 / 2) 0 0, euler := (90, 0, 0)\<rparr>)"
proof -
  let ?q = "Quaternion (sqrt 2 / 2) (sqrt 2 / 2) 0 0"
  have i: "quaternion identity_property = Quaternion 1 0 0 0"
    by (simp add: identity_property_def)
  have d: "decompose eulerAngles (identity_property\<lparr>quaternion := ?q\<rparr>) = (pi / 2, 0, 0)"
    using eulerAngles_quarter_fixed toRotationMatrix_quarter_plus
    by (simp add: decompose_def identity_property_def)
  have c: "compose (fixed (identity_property\<lparr>quaternion := ?q\<rparr>))
             (axes (identity_property\<lparr>quaternion := ?q\<rparr>)) (pi / 2, 0, 0) = ?q"
    using compose_quarter_fixed by (simp add: identity_property_def)
  have "updateAngles eulerAngles (identity_property\<lparr>quaternion := ?q\<rparr>) =
          ([AboutToChange, Changed], identity_property\<lparr>quaternion := ?q, euler := (90, 0, 0)\<rparr>)"
    unfolding updateAngles_def Let_def d c
    by (simp add: store_angles_def push_to_children_def Let_def isApprox_refl to_degrees_def
        identity_property_def)
  then show ?thesis
    using isApprox_identity_quarter by (simp add: setQuaternion_def i)
qed

text \<open>
  C5: \<^verbatim>\<open>quaternionChanged\<close> is to be emitted exactly when the stored quaternion changes
  beyond the tolerance. \<^verbatim>\<open>setQuaternion\<close> with a quarter turn about \<open>x\<close>, on the property
  constructed for the identity rotation, stores the new quaternion and emits
  \<^verbatim>\<open>aboutToChange\<close> and \<^verbatim>\<open>changed\<close> only; \<^verbatim>\<open>setEulerAngles(\<pi>/2, 0, 0, false)\<close>
  makes the same change and emits \<^verbatim>\<open>quaternionChanged\<close> with it.
\<close>

theorem setQuaternion_changes_without_signal:
  "setQuaternion eulerAngles (Quaternion (sqrt 2 / 2) (sqrt 2 / 2) 0 0) identity_property =
     ([AboutToChange, Changed],
      identity_property
        \<lparr>quaternion := Quaternion (sqrt 2 / 2) (sqrt 2 / 2) 0 0, euler := (90, 0, 0)\<rparr>) \<and>
   \<not> isApprox (quaternion identity_property) (Quaternion (sqrt 2 / 2) (sqrt 2 / 2) 0 0) \<and>
   fst (setEulerAngles eulerAngles (pi / 2, 0, 0) False identity_property) =
     [AboutToChange, QuaternionChanged (Quaternion (sqrt 2 / 2) (sqrt 2 / 2) 0 0), Changed]"
proof -
  have "fst (setEulerAngles eulerAngles (pi / 2, 0, 0) False identity_property) =
     [AboutToChange, QuaternionChanged (Quaternion (sqrt 2 / 2) (sqrt 2 / 2) 0 0), Changed]"
    using compose_quarter_fixed isApprox_identity_quarter
    by (simp add: setEulerAngles_def store_angles_signals identity_property_def)
  then show ?thesis
    using isApprox_identity_quarter setQuaternion_quarter_turn
    by (simp add: identity_property_def)
qed

section \<open>Setting the quaternion again\<close>

lemma RotationProperty_new_identity:
  "RotationProperty_new eulerAngles (Quaternion 1 0 0 0) = Inr identity_rotation"
  by (simp add: RotationProperty_new_def EulerProperty_new_identity identity_rotation_def)

lemma setQuaternion_approx: "isApprox (quaternion p) q \<Longrightarrow> setQuaternion ea q p = ([], p)"
  by (simp add: setQuaternion_def)

lemma RotationProperty_setQuaternion_approx:
  "isApprox (getQuaternion rp) q \<Longrightarrow> RotationProperty_setQuaternion ea q rp = ([], rp)"
  by (simp add: RotationProperty_setQuaternion_def)

lemma setQuaternion_again:
  assumes "\<not> quaternionChanged_emitted (fst (setQuaternion ea q p))"
  shows "setQuaternion ea q (snd (setQuaternion ea q p)) = ([], snd (setQuaternion ea q p))"
proof (cases "isApprox (quaternion p) q")
  case True
  then show ?thesis by (simp add: setQuaternion_approx)
next
  case False
  with assms have "isApprox q (recomposed ea (p\<lparr>quaternion := q\<rparr>))"
    by (simp add: setQuaternion_emitted)
  then have "quaternion (snd (updateAngles ea (p\<lparr>quaternion := q\<rparr>))) = q"
    by (simp add: updateAngles_quaternion)
  moreover have "snd (setQuaternion ea q p) = snd (updateAngles ea (p\<lparr>quaternion := q\<rparr>))"
    using False by (simp add: setQuaternion_def)
  ultimately show ?thesis
    by (simp add: setQuaternion_approx isApprox_refl)
qed

lemma Quaternion_eq_iff:
  "Quaternion w x y z = Quaternion w' x' y' z' \<longleftrightarrow> w = w' \<and> x = x' \<and> y = y' \<and> z = z'"
  by (simp add: Quaternion_def)

lemma RotationProperty_setQuaternion_minus_identity:
  "RotationProperty_setQuaternion eulerAngles (Quaternion (- 1) 0 0 0) identity_rotation =
     ([FromEuler AboutToChange, FromEuler (QuaternionChanged (Quaternion 1 0 0 0)),
       FromEuler Changed, QuaternionPropertyChanged],
      identity_rotation\<lparr>quaternion_property := Quaternion (- 1) 0 0 0\<rparr>)"
  by (simp add: RotationProperty_setQuaternion_def getQuaternion_def identity_rotation_def
      setQuaternion_minus_identity updateFromEuler_def quaternion_property_set_def Let_def
      Quaternion_eq_iff)
    (simp add: identity_property_def isApprox_identity)

lemma RotationProperty_setQuaternion_minus_identity_again:
  "RotationProperty_setQuaternion eulerAngles (Quaternion (- 1) 0 0 0)
     (identity_rotation\<lparr>quaternion_property := Quaternion (- 1) 0 0 0\<rparr>) =
     ([FromEuler AboutToChange, FromEuler (QuaternionChanged (Quaternion 1 0 0 0)),
       QuaternionPropertyChanged, FromEuler Changed, QuaternionPropertyChanged],
      identity_rotation\<lparr>quaternion_property := Quaternion (- 1) 0 0 0\<rparr>)"
  by (simp add: RotationProperty_setQuaternion_def getQuaternion_def identity_rotation_def
      setQuaternion_minus_identity updateFromEuler_def quaternion_property_set_def Let_def
      Quaternion_eq_iff)
    (simp add: identity_property_def isApprox_identity)

text \<open>
  C9 as stated fails: after \<^verbatim>\<open>setQuaternion\<close> with \<open>(-1, 0, 0, 0)\<close> on the properties
  constructed for the identity rotation the Euler property holds \<open>(1, 0, 0, 0)\<close>, and a
  second call with the same quaternion emits the signals once more.
\<close>

theorem setQuaternion_twice_emits_again:
  "fst (setQuaternion eulerAngles (Quaternion (- 1) 0 0 0)
          (snd (setQuaternion eulerAngles (Quaternion (- 1) 0 0 0) identity_property)))
     = [AboutToChange, QuaternionChanged (Quaternion 1 0 0 0), Changed] \<and>
   fst (RotationProperty_setQuaternion eulerAngles (Quaternion (- 1) 0 0 0)
          (snd (RotationProperty_setQuaternion eulerAngles (Quaternion (- 1) 0 0 0)
                  identity_rotation)))
     = [FromEuler AboutToChange, FromEuler (QuaternionChanged (Quaternion 1 0 0 0)),
        QuaternionPropertyChanged, FromEuler Changed, QuaternionPropertyChanged]"
  by (simp add: setQuaternion_minus_identity RotationProperty_setQuaternion_minus_identity
      RotationProperty_setQuaternion_minus_identity_again)

section \<open>Changing the axes\<close>

lemma updateAngles_euler:
  "euler (snd (updateAngles ea p)) =
     (if ignore_child_updates p then euler p else degrees3 (decompose ea p))"
  by (cases "decompose ea p")
    (simp add: updateAngles_def store_angles_def push_to_children_def Let_def degrees3_def)

lemma parse_axes_examples:
  "parse_axes ''xyz'' = Inr (False, 0, 1, 2)"
  "parse_axes ''xyq'' = Inl (InvalidAxisChar (CHR ''x''))"
  "parse_axes ''xxz'' = Inl (InvalidAxesMsg ''consecutive axes need to be different'')"
  by (simp_all add: parse_axes_def constData_def axis_index_def)

lemma decompose_identity_xyz:
  assumes "q = Quaternion 1 0 0 0 \<or> q = Quaternion (- 1) 0 0 0"
  shows "decompose eulerAngles (accept_axes ''xyz'' False (0, 1, 2) (p\<lparr>quaternion := q\<rparr>)) = (0, 0, 0)"
  using assms
  by (auto simp: decompose_def accept_axes_def toRotationMatrix_identity eulerAngles_identity)

lemma setEulerAngles_five_quarter:
  "setEulerAngles ea (5 * pi / 2, 0, 0) False identity_property =
     ([AboutToChange, QuaternionChanged (Quaternion (- (sqrt 2 / 2)) (- (sqrt 2 / 2)) 0 0), Changed],
      identity_property
        \<lparr>quaternion := Quaternion (- (sqrt 2 / 2)) (- (sqrt 2 / 2)) 0 0, euler := (450, 0, 0)\<rparr>)"
  using compose_five_quarter isApprox_quarter(1)
  by (simp add: setEulerAngles_def identity_property_def store_angles_def
      push_to_children_def to_degrees_def Let_def)

text \<open>
  C7 as stated fails: \<^verbatim>\<open>setEulerAngles(5\<pi>/2, 0, 0, false)\<close> on the property constructed for
  the identity rotation stores the quaternion \<open>(w, x, y, z) = (-\<surd>2/2, -\<surd>2/2, 0, 0)\<close>;
  \<^verbatim>\<open>setEulerAxes("xyz")\<close> then decomposes it to a quarter turn about \<open>x\<close> and replaces it
  by \<open>(\<surd>2/2, \<surd>2/2, 0, 0)\<close>, which \<^verbatim>\<open>isApprox\<close> tells apart from it.
\<close>

theorem setEulerAxes_replaces_quaternion:
  "quaternion (snd (setEulerAngles eulerAngles (5 * pi / 2, 0, 0) False identity_property))
     = Quaternion (- (sqrt 2 / 2)) (- (sqrt 2 / 2)) 0 0 \<and>
   (case setEulerAxes eulerAngles ''xyz''
           (snd (setEulerAngles eulerAngles (5 * pi / 2, 0, 0) False identity_property)) of
      Inl e \<Rightarrow> False
    | Inr (sg, p') \<Rightarrow>
        quaternion p' = Quaternion (sqrt 2 / 2) (sqrt 2 / 2) 0 0 \<and>
        quaternionChanged_emitted sg) \<and>
   \<not> isApprox (Quaternion (- (sqrt 2 / 2)) (- (sqrt 2 / 2)) 0 0)
       (Quaternion (sqrt 2 / 2) (sqrt 2 / 2) 0 0)"
proof -
  let ?p = "identity_property
        \<lparr>quaternion := Quaternion (- (sqrt 2 / 2)) (- (sqrt 2 / 2)) 0 0, euler := (450, 0, 0)\<rparr>"
  have ne: "axes_string ?p \<noteq> ''xyz''" by (simp add: identity_property_def)
  have d: "decompose eulerAngles (accept_axes ''xyz'' False (0, 1, 2) ?p) = (pi / 2, 0, 0)"
    using eulerAngles_quarter toRotationMatrix_quarter
    by (simp add: decompose_def accept_axes_def)
  have r: "recomposed eulerAngles (accept_axes ''xyz'' False (0, 1, 2) ?p)
             = Quaternion (sqrt 2 / 2) (sqrt 2 / 2) 0 0"
    using d compose_quarter by (simp add: recomposed_def)
  have q: "quaternion (accept_axes ''xyz'' False (0, 1, 2) ?p)
             = Quaternion (- (sqrt 2 / 2)) (- (sqrt 2 / 2)) 0 0"
    by simp
  have "setEulerAxes eulerAngles ''xyz'' ?p
          = Inr (updateAngles eulerAngles (accept_axes ''xyz'' False (0, 1, 2) ?p))"
    using ne parse_axes_examples(1) by (rule setEulerAxes_parsed)
  moreover have "quaternion (snd (updateAngles eulerAngles (accept_axes ''xyz'' False (0, 1, 2) ?p)))
      = Quaternion (sqrt 2 / 2) (sqrt 2 / 2) 0 0"
    by (simp only: updateAngles_quaternion r q isApprox_quarter(2) if_False)
  moreover have "quaternionChanged_emitted
      (fst (updateAngles eulerAngles (accept_axes ''xyz'' False (0, 1, 2) ?p)))"
    by (simp only: updateAngles_emitted r q isApprox_quarter(2) not_False_eq_True)
  ultimately show ?thesis
    by (simp add: setEulerAngles_five_quarter isApprox_quarter(2) case_prod_beta)
qed

section \<open>The suppression flags\<close>

lemma setQuaternion_flag:
  "ignore_child_updates (snd (setQuaternion ea q p)) = ignore_child_updates p"
  by (simp add: setQuaternion_def)

lemma setEulerAngles_flag:
  "ignore_child_updates (snd (setEulerAngles ea e n p)) = ignore_child_updates p"
  by (simp add: setEulerAngles_def Let_def setQuaternion_flag)

lemma updateFromChildren_flag:
  "ignore_child_updates (snd (updateFromChildren p)) = ignore_child_updates p"
  by (simp add: updateFromChildren_def Let_def)

lemma child_setValue_flag:
  "ignore_child_updates (snd (child_setValue i v p)) = ignore_child_updates p"
  by (simp add: child_setValue_def Let_def updateFromChildren_flag)

lemma setEulerAxes_flag:
  assumes "setEulerAxes ea s p = Inr (sg, p')"
  shows "ignore_child_updates p' = ignore_child_updates p"
proof (cases "axes_string p = s")
  case True
  with assms show ?thesis by (simp add: setEulerAxes_same)
next
  case False
  with assms obtain fx a where "parse_axes s = Inr (fx, a)"
    by (cases "parse_axes s") (auto simp: setEulerAxes_def)
  with False assms have "p' = snd (updateAngles ea (accept_axes s fx a p))"
    by (simp add: setEulerAxes_parsed)
  then show ?thesis by simp
qed

lemma setValue_flag:
  "ignore_child_updates (snd (snd (setValue ea toDouble v p))) = ignore_child_updates p"
proof -
  have e: "ignore_child_updates (snd (setEulerAngles ea e False p1)) = ignore_child_updates p1"
    for e p1 by (rule setEulerAngles_flag)
  show ?thesis
    using e
    by (auto simp: setValue_def Let_def case_prod_beta dest: setEulerAxes_flag
        split: option.splits sum.splits)
qed

lemma load_flag:
  assumes "load ea config p = Inr (sg, p')"
  shows "ignore_child_updates p' = ignore_child_updates p"
  using assms setEulerAngles_flag[of ea _ True]
  by (auto simp: load_def case_prod_beta dest!: setEulerAxes_flag
      split: option.splits sum.splits)

lemma quaternion_property_set_fields [simp]:
  "euler_property (snd (quaternion_property_set q rp)) = euler_property rp"
  "rp_ignore_child_updates (snd (quaternion_property_set q rp)) = rp_ignore_child_updates rp"
  by (simp_all add: quaternion_property_set_def)

lemma updateFromEuler_fields [simp]:
  "euler_property (snd (updateFromEuler q rp)) = euler_property rp"
  "rp_ignore_child_updates (snd (updateFromEuler q rp)) = rp_ignore_child_updates rp"
  by (simp_all add: updateFromEuler_def Let_def)

lemma deliver_fields [simp]:
  "euler_property (snd (deliver sg rp)) = euler_property rp"
  "rp_ignore_child_updates (snd (deliver sg rp)) = rp_ignore_child_updates rp"
  by (induction sg arbitrary: rp; simp add: Let_def split: signal.splits)+

lemma RotationProperty_setQuaternion_idle:
  assumes "rotation_idle rp"
  shows "rotation_idle (snd (RotationProperty_setQuaternion ea q rp))"
  using assms
  by (simp add: RotationProperty_setQuaternion_def rotation_idle_def Let_def setQuaternion_flag)

lemma updateFromQuaternion_idle:
  assumes "rotation_idle rp"
  shows "rotation_idle (snd (updateFromQuaternion ea rp))"
  using RotationProperty_setQuaternion_idle[OF assms, of ea "quaternion_property rp"] assms
  by (simp add: updateFromQuaternion_def Let_def rotation_idle_def)

lemma RotationProperty_setEulerAngles_idle:
  assumes "rotation_idle rp"
  shows "rotation_idle (snd (RotationProperty_setEulerAngles ea e n rp))"
  using assms
  by (simp add: RotationProperty_setEulerAngles_def rotation_idle_def Let_def setEulerAngles_flag)

lemma RotationProperty_setEulerAxes_idle:
  assumes "rotation_idle rp"
  shows "case RotationProperty_setEulerAxes ea s rp of
           Inl err \<Rightarrow> True
         | Inr (sg, rp') \<Rightarrow> rotation_idle rp'"
proof (cases "setEulerAxes ea s (euler_property rp)")
  case (Inl e)
  then show ?thesis by (simp add: RotationProperty_setEulerAxes_def)
next
  case (Inr r)
  obtain sg ep where r: "r = (sg, ep)" by (cases r)
  with Inr have "ignore_child_updates ep = ignore_child_updates (euler_property rp)"
    by (simp add: setEulerAxes_flag)
  with assms Inr r show ?thesis
    by (simp add: RotationProperty_setEulerAxes_def rotation_idle_def case_prod_beta)
qed

lemma RotationProperty_load_idle:
  assumes "rotation_idle rp"
  shows "case RotationProperty_load ea config rp of
           Inl err \<Rightarrow> True
         | Inr (sg, rp') \<Rightarrow> rotation_idle rp'"
proof (cases "load ea config (euler_property rp)")
  case (Inl e)
  then show ?thesis by (simp add: RotationProperty_load_def)
next
  case (Inr r)
  obtain sg ep where r: "r = (sg, ep)" by (cases r)
  with Inr have "ignore_child_updates ep = ignore_child_updates (euler_property rp)"
    by (simp add: load_flag)
  with assms Inr r show ?thesis
    by (simp add: RotationProperty_load_def rotation_idle_def case_prod_beta)
qed

lemma EulerProperty_new_flag:
  "case EulerProperty_new ea v of
     Inl err \<Rightarrow> True
   | Inr (sg, p0) \<Rightarrow> \<not> ignore_child_updates p0"
proof (cases "EulerProperty_new ea v")
  case (Inl e)
  then show ?thesis by simp
next
  case (Inr r)
  obtain sg p0 where r: "r = (sg, p0)" by (cases r)
  with Inr have "\<not> ignore_child_updates p0"
    by (simp add: EulerProperty_new_def setEulerAxes_flag)
  with Inr r show ?thesis by simp
qed

lemma RotationProperty_new_idle:
  "case RotationProperty_new ea v of
     Inl err \<Rightarrow> True
   | Inr rp0 \<Rightarrow> rotation_idle rp0"
  using EulerProperty_new_flag[of ea v]
  by (simp add: RotationProperty_new_def rotation_idle_def split: sum.splits prod.splits)

text \<open>
  C10: the constructors leave \<^verbatim>\<open>ignore_child_updates_\<close> clear, and an operation entered
  with it clear returns with it clear, for every operation of \<^verbatim>\<open>EulerProperty\<close> and,
  with both flags, of \<^verbatim>\<open>RotationProperty\<close>; an operation that raises has not touched a
  flag.
\<close>

theorem ignore_child_updates_cleared:
  assumes "\<not> ignore_child_updates p" and "rotation_idle rp"
  shows "\<not> ignore_child_updates (snd (setQuaternion ea q p)) \<and>
         \<not> ignore_child_updates (snd (setEulerAngles ea e n p)) \<and>
         \<not> ignore_child_updates (snd (updateFromChildren p)) \<and>
         \<not> ignore_child_updates (snd (child_setValue i v p)) \<and>
         (case setEulerAxes ea s p of
            Inl err \<Rightarrow> True
          | Inr (sg, p') \<Rightarrow> \<not> ignore_child_updates p') \<and>
         \<not> ignore_child_updates (snd (snd (setValue ea toDouble txt p))) \<and>
         (case load ea config p of
            Inl err \<Rightarrow> True
          | Inr (sg, p') \<Rightarrow> \<not> ignore_child_updates p') \<and>
         rotation_idle (snd (RotationProperty_setQuaternion ea q rp)) \<and>
         rotation_idle (snd (updateFromQuaternion ea rp)) \<and>
         rotation_idle (snd (RotationProperty_setEulerAngles ea e n rp)) \<and>
         (case RotationProperty_setEulerAxes ea s rp of
            Inl err \<Rightarrow> True
          | Inr (sg, rp') \<Rightarrow> rotation_idle rp') \<and>
         (case RotationProperty_load ea config rp of
            Inl err \<Rightarrow> True
          | Inr (sg, rp') \<Rightarrow> rotation_idle rp') \<and>
         (case EulerProperty_new ea v0 of
            Inl err \<Rightarrow> True
          | Inr (sg, p0) \<Rightarrow> \<not> ignore_child_updates p0) \<and>
         (case RotationProperty_new ea v0 of
            Inl err \<Rightarrow> True
          | Inr rp0 \<Rightarrow> rotation_idle rp0)"
proof -
  have axes: "case setEulerAxes ea s p of
            Inl err \<Rightarrow> True
          | Inr (sg, p') \<Rightarrow> \<not> ignore_child_updates p'"
    using assms(1) by (auto dest: setEulerAxes_flag split: sum.splits)
  have ld: "case load ea config p of
            Inl err \<Rightarrow> True
          | Inr (sg, p') \<Rightarrow> \<not> ignore_child_updates p'"
    using assms(1) by (auto dest: load_flag split: sum.splits)
  show ?thesis
    using assms(1) axes ld RotationProperty_setQuaternion_idle[OF assms(2)]
      updateFromQuaternion_idle[OF assms(2)] RotationProperty_setEulerAngles_idle[OF assms(2)]
      RotationProperty_setEulerAxes_idle[OF assms(2)] RotationProperty_load_idle[OF assms(2)]
      EulerProperty_new_flag[of ea v0] RotationProperty_new_idle[of ea v0]
    by (simp add: setQuaternion_flag setEulerAngles_flag updateFromChildren_flag
        child_setValue_flag setValue_flag)
qed

text \<open>C10 for operations on the properties constructed for the identity rotation.\<close>

theorem ignore_child_updates_cleared_witness:
  "\<not> ignore_child_updates
       (snd (setQuaternion eulerAngles (Quaternion (- 1) 0 0 0) identity_property)) \<and>
   \<not> ignore_child_updates
       (snd (setEulerAngles eulerAngles (2 * pi, 0, 0) True identity_property)) \<and>
   \<not> ignore_child_updates (snd (updateFromChildren identity_property)) \<and>
   \<not> ignore_child_updates (snd (child_setValue 0 90 identity_property)) \<and>
   (case setEulerAxes eulerAngles ''xyz'' identity_property of
      Inl err \<Rightarrow> True
    | Inr (sg, p') \<Rightarrow> \<not> ignore_child_updates p') \<and>
   \<not> ignore_child_updates
       (snd (snd (setValue eulerAngles (\<lambda>t. None) ''xyz: 1;2'' identity_property))) \<and>
   (case load eulerAngles
           \<lparr>mapGetString = (\<lambda>k. Some ''xyz''), mapGetFloat = (\<lambda>k. Some 0)\<rparr>
           identity_property of
      Inl err \<Rightarrow> True
    | Inr (sg, p') \<Rightarrow> \<not> ignore_child_updates p') \<and>
   rotation_idle
     (snd (RotationProperty_setQuaternion eulerAngles (Quaternion (- 1) 0 0 0)
             identity_rotation)) \<and>
   rotation_idle (snd (updateFromQuaternion eulerAngles identity_rotation)) \<and>
   rotation_idle
     (snd (RotationProperty_setEulerAngles eulerAngles (2 * pi, 0, 0) True identity_rotation)) \<and>
   (case RotationProperty_setEulerAxes eulerAngles ''xyz'' identity_rotation of
      Inl err \<Rightarrow> True
    | Inr (sg, rp') \<Rightarrow> rotation_idle rp') \<and>
   (case RotationProperty_load eulerAngles
           \<lparr>mapGetString = (\<lambda>k. Some ''xyz''), mapGetFloat = (\<lambda>k. Some 0)\<rparr>
           identity_rotation of
      Inl err \<Rightarrow> True
    | Inr (sg, rp') \<Rightarrow> rotation_idle rp') \<and>
   (case EulerProperty_new eulerAngles (Quaternion 1 0 0 0) of
      Inl err \<Rightarrow> True
    | Inr (sg, p0) \<Rightarrow> \<not> ignore_child_updates p0) \<and>
   (case RotationProperty_new eulerAngles (Quaternion 1 0 0 0) of
      Inl err \<Rightarrow> True
    | Inr rp0 \<Rightarrow> rotation_idle rp0)"
proof -
  have a: "\<not> ignore_child_updates identity_property"
    by (simp add: identity_property_def)
  have b: "rotation_idle identity_rotation"
    by (simp add: rotation_idle_def identity_rotation_def identity_property_def)
  show ?thesis by (rule ignore_child_updates_cleared[OF a b])
qed

section \<open>Free-text values and loading\<close>

lemma setEulerAxes_xyz_identity:
  "setEulerAxes eulerAngles ''xyz'' identity_property =
     Inr ([AboutToChange, Changed], accept_axes ''xyz'' False (0, 1, 2) identity_property)"
proof -
  have ne: "axes_string identity_property \<noteq> ''xyz''" by (simp add: identity_property_def)
  have d: "decompose eulerAngles (accept_axes ''xyz'' False (0, 1, 2) identity_property) = (0, 0, 0)"
    using decompose_identity_xyz[of "Quaternion 1 0 0 0" identity_property]
    by (simp add: identity_property_def)
  have "updateAngles eulerAngles (accept_axes ''xyz'' False (0, 1, 2) identity_property) =
          ([AboutToChange, Changed], accept_axes ''xyz'' False (0, 1, 2) identity_property)"
    using d
    by (simp add: updateAngles_def compose_zero store_angles_def push_to_children_def
        to_degrees_def Let_def accept_axes_def identity_property_def isApprox_identity)
  then show ?thesis
    by (simp add: setEulerAxes_parsed[OF ne parse_axes_examples(1)])
qed

lemma setValue_never_true: "fst (setValue ea toDouble v p) \<noteq> Some True"
  by (simp add: setValue_def Let_def case_prod_beta split: option.splits sum.splits)

text \<open>
  C6: a malformed text is to be rejected with the state as it was. The text \<open>xyz: 1;2\<close>
  has two angle fields; \<^verbatim>\<open>setValue\<close> returns false at line 188, after line 180 has
  replaced the specification \<open>rpy\<close> by \<open>xyz\<close> and cleared the frame flag. No text makes
  \<^verbatim>\<open>setValue\<close> return true: an accepted one leaves the function with no value returned.
\<close>

theorem setValue_rejects_after_changing_axes:
  "setValue eulerAngles toDouble ''xyz: 1;2'' identity_property =
     (Some False, [AboutToChange, Changed], accept_axes ''xyz'' False (0, 1, 2) identity_property) \<and>
   axes_string (accept_axes ''xyz'' False (0, 1, 2) identity_property)
     \<noteq> axes_string identity_property \<and>
   fixed (accept_axes ''xyz'' False (0, 1, 2) identity_property) \<noteq> fixed identity_property \<and>
   fst (setValue ea toDouble v p) \<noteq> Some True"
proof -
  have m: "axesSpec_indexIn ''xyz: 1;2'' = Some (''xyz'', 4)"
    by (simp add: axesSpec_at_def isSpace_def isLower_def)
  have "setValue eulerAngles toDouble ''xyz: 1;2'' identity_property =
     (Some False, [AboutToChange, Changed], accept_axes ''xyz'' False (0, 1, 2) identity_property)"
    using setEulerAxes_xyz_identity
    by (simp add: setValue_def m del: axesSpec_indexIn.simps)
  then show ?thesis
    by (simp add: setValue_never_true) (simp add: identity_property_def)
qed

text \<open>
  C8: a configuration with a malformed key is to leave the state alone and raise
  nothing. With all four keys present and the specification \<open>xxz\<close>, \<^verbatim>\<open>load\<close> calls
  \<^verbatim>\<open>setEulerAxes\<close> at line 249 and its \<^verbatim>\<open>invalid_axes\<close> leaves \<^verbatim>\<open>load\<close> uncaught.
\<close>

theorem load_raises_invalid_axes:
  "load ea
     \<lparr>mapGetString = (\<lambda>k. if k = ''axes'' then Some ''xxz'' else None),
      mapGetFloat = (\<lambda>k. if k = ''e1'' \<or> k = ''e2'' \<or> k = ''e3'' then Some 0 else None)\<rparr>
     identity_property
   = Inl (InvalidAxesMsg ''consecutive axes need to be different'')"
proof -
  have "axes_string identity_property \<noteq> ''xxz''" by (simp add: identity_property_def)
  then show ?thesis
    by (simp add: load_def setEulerAxes_error[OF _ parse_axes_examples(3)])
qed

section \<open>The round trip through Euler angles\<close>

lemma sign_of_pivot:
  fixes a b c d w x y z :: real
  assumes "a * a = w * w" and "w \<noteq> 0"
    and "a * b = w * x" and "a * c = w * y" and "a * d = w * z"
  shows "(a = w \<and> b = x \<and> c = y \<and> d = z) \<or> (a = - w \<and> b = - x \<and> c = - y \<and> d = - z)"
proof -
  from assms(1) have "a = w \<or> a = - w" by (simp add: square_eq_iff)
  then show ?thesis
  proof
    assume "a = w"
    with assms show ?thesis by simp
  next
    assume neg: "a = - w"
    with assms have p: "w * (- b) = w * x" "w * (- c) = w * y" "w * (- d) = w * z"
      by simp_all
    have "- b = x" using p(1) assms(2) by (metis mult_left_cancel)
    moreover have "- c = y" using p(2) assms(2) by (metis mult_left_cancel)
    moreover have "- d = z" using p(3) assms(2) by (metis mult_left_cancel)
    ultimately show ?thesis using neg by auto
  qed
qed

lemma same_rotation:
  assumes ua: "squaredNorm a = 1" and ub: "squaredNorm b = 1"
    and m: "toRotationMatrix a = toRotationMatrix b"
  shows "a = b \<or> a = qneg b"
proof -
  obtain w x y z where b: "b = \<lparr>qw = w, qx = x, qy = y, qz = z\<rparr>" by (cases b) simp
  obtain e f g h where a: "a = \<lparr>qw = e, qx = f, qy = g, qz = h\<rparr>" by (cases a) simp
  from m have eqs:
    "g * g + h * h = y * y + z * z" "f * f + h * h = x * x + z * z" "f * f + g * g = x * x + y * y"
    "g * f - h * e = y * x - z * w" "g * f + h * e = y * x + z * w"
    "h * f + g * e = z * x + y * w" "h * f - g * e = z * x - y * w"
    "h * g - f * e = z * y - x * w" "h * g + f * e = z * y + x * w"
    by (simp_all add: a b toRotationMatrix_def Let_def)
  from ua ub have n: "e * e + f * f + g * g + h * h = 1" "w * w + x * x + y * y + z * z = 1"
    by (simp_all add: a b squaredNorm_def)
  have sq: "f * f = x * x" "g * g = y * y" "h * h = z * z" "e * e = w * w"
    using eqs(1-3) n by linarith+
  have pr: "f * g = x * y" "e * h = w * z" "f * h = x * z" "e * g = w * y" "g * h = y * z" "e * f = w * x"
    using eqs(4-9) by (simp_all add: mult.commute)
  have "w \<noteq> 0 \<or> x \<noteq> 0 \<or> y \<noteq> 0 \<or> z \<noteq> 0" using n(2) by auto
  then have "(e = w \<and> f = x \<and> g = y \<and> h = z) \<or> (e = - w \<and> f = - x \<and> g = - y \<and> h = - z)"
  proof (elim disjE)
    assume "w \<noteq> 0"
    from sign_of_pivot[OF sq(4) this pr(6) pr(4) pr(2)] show ?thesis by blast
  next
    assume "x \<noteq> 0"
    have "f * e = x * w" "f * g = x * y" "f * h = x * z" using pr by (simp_all add: mult.commute)
    from sign_of_pivot[OF sq(1) \<open>x \<noteq> 0\<close> this] show ?thesis by blast
  next
    assume "y \<noteq> 0"
    have "g * e = y * w" "g * f = y * x" "g * h = y * z" using pr by (simp_all add: mult.commute)
    from sign_of_pivot[OF sq(2) \<open>y \<noteq> 0\<close> this] show ?thesis by blast
  next
    assume "z \<noteq> 0"
    have "h * e = z * w" "h * f = z * x" "h * g = z * y" using pr by (simp_all add: mult.commute)
    from sign_of_pivot[OF sq(3) \<open>z \<noteq> 0\<close> this] show ?thesis by blast
  qed
  then show ?thesis by (auto simp: a b qneg_def)
qed

lemma recomposed_cong:
  assumes "quaternion p' = quaternion p" and "fixed p' = fixed p" and "axes p' = axes p"
  shows "recomposed ea p' = recomposed ea p"
  using assms by (simp add: recomposed_def decompose_def split: prod.splits)

lemma squaredNorm_recomposed:
  assumes "axes p = (a0, a1, a2)" and "a0 < 3" and "a1 < 3" and "a2 < 3"
  shows "squaredNorm (recomposed ea p) = 1"
  using assms by (simp add: recomposed_def squaredNorm_compose)

lemma squaredNorm_qneg: "squaredNorm (qneg a) = squaredNorm a"
  by (simp add: squaredNorm_def qneg_def)

lemma isApprox_qneg: "isApprox (qneg a) (qneg b) \<longleftrightarrow> isApprox a b"
proof -
  have "squaredNorm (qdiff (qneg a) (qneg b)) = squaredNorm (qdiff a b)"
    by (simp add: squaredNorm_def qdiff_def qneg_def algebra_simps)
  then show ?thesis by (simp add: isApprox_def approx_within_def squaredNorm_qneg)
qed

lemma approx_within_mono:
  assumes "approx_within prec a b" and "0 \<le> prec" and "prec \<le> prec'"
  shows "approx_within prec' a b"
proof -
  have "prec * prec \<le> prec' * prec'" using assms(2,3) by (simp add: mult_mono)
  moreover have "0 \<le> min (squaredNorm a) (squaredNorm b)" by (simp add: squaredNorm_nonneg)
  ultimately have "prec * prec * min (squaredNorm a) (squaredNorm b)
      \<le> prec' * prec' * min (squaredNorm a) (squaredNorm b)"
    by (rule mult_right_mono)
  with assms(1) show ?thesis by (simp add: approx_within_def)
qed

lemma isApprox_within_micro: "isApprox a b \<Longrightarrow> approx_within (1 / 1000000) a b"
  by (rule approx_within_mono[of dummy_precision]) (simp_all add: isApprox_def dummy_precision_def)

lemma roundtrip_cases:
  "roundtrip ea q p =
     (if isApprox (quaternion p) q then recomposed ea p
      else if isApprox q (recomposed ea (p\<lparr>quaternion := q\<rparr>))
        then recomposed ea (p\<lparr>quaternion := q\<rparr>)
      else recomposed ea (p\<lparr>quaternion := recomposed ea (p\<lparr>quaternion := q\<rparr>)\<rparr>))"
proof -
  have "recomposed ea (snd (updateAngles ea p')) =
          recomposed ea (p'\<lparr>quaternion := quaternion (snd (updateAngles ea p'))\<rparr>)" for p'
    by (rule recomposed_cong) simp_all
  then show ?thesis
    by (simp add: roundtrip_def setQuaternion_def updateAngles_quaternion)
qed

lemma roundtrip_minus_identity:
  "roundtrip eulerAngles (Quaternion (- 1) 0 0 0) identity_property = Quaternion 1 0 0 0"
proof -
  have "recomposed eulerAngles identity_property = Quaternion 1 0 0 0"
    by (simp add: recomposed_def decompose_def identity_property_def toRotationMatrix_identity
        eulerAngles_identity compose_zero)
  then show ?thesis
    by (simp add: roundtrip_def setQuaternion_minus_identity)
qed

section \<open>Exact decompositions\<close>

text \<open>
  The rotation matrix of the quaternion composed at lines 91-99 is the product of the three
  axis rotations in the order of the frame. With a decomposition that is exact at the
  stored quaternion for the call \<^verbatim>\<open>updateAngles\<close> makes (the reversed axes under the
  fixed frame, whose result line 222 swaps), the recomposed quaternion therefore has the
  rotation matrix of the stored one, and is the stored one or its negative.
\<close>

lemma axis_index_range: "axis_index f prev c = Inr a \<Longrightarrow> a < 3"
  by (auto simp: axis_index_def Let_def split: if_splits)

lemma parse_axes_range:
  assumes "parse_axes s = Inr (fx, a0, a1, a2)"
  shows "a0 < 3 \<and> a1 < 3 \<and> a2 < 3"
  using assms
  by (auto simp: parse_axes_def Let_def split: if_splits list.splits sum.splits
      dest: axis_index_range)

lemma toRotationMatrix_compose:
  assumes "a0 < 3" and "a1 < 3" and "a2 < 3"
  shows "toRotationMatrix (compose fx (a0, a1, a2) (e0, e1, e2)) =
           (if fx
            then mat_mul (mat_mul (axis_rotation a2 e2) (axis_rotation a1 e1)) (axis_rotation a0 e0)
            else mat_mul (mat_mul (axis_rotation a0 e0) (axis_rotation a1 e1)) (axis_rotation a2 e2))"
proof -
  have u: "squaredNorm (AngleAxis e0 (Unit a0)) = 1" "squaredNorm (AngleAxis e1 (Unit a1)) = 1"
    "squaredNorm (AngleAxis e2 (Unit a2)) = 1"
    using assms by (simp_all add: squaredNorm_AngleAxis)
  have "squaredNorm (qmul (AngleAxis e2 (Unit a2)) (AngleAxis e1 (Unit a1))) = 1"
    and "squaredNorm (qmul (AngleAxis e0 (Unit a0)) (AngleAxis e1 (Unit a1))) = 1"
    using u by (simp_all add: squaredNorm_qmul)
  then show ?thesis
    using assms u
    by (simp add: compose_def toRotationMatrix_qmul toRotationMatrix_AngleAxis)
qed

lemma recomposed_matrix:
  assumes "axes p = (a0, a1, a2)" and "a0 < 3" and "a1 < 3" and "a2 < 3"
    and "fixed p \<Longrightarrow> eulerAngles_exact ea (toRotationMatrix (quaternion p)) a2 a1 a0"
    and "\<not> fixed p \<Longrightarrow> eulerAngles_exact ea (toRotationMatrix (quaternion p)) a0 a1 a2"
  shows "toRotationMatrix (recomposed ea p) = toRotationMatrix (quaternion p)"
proof (cases "fixed p")
  case True
  obtain x y z where e: "ea (toRotationMatrix (quaternion p)) a2 a1 a0 = (x, y, z)"
    by (cases "ea (toRotationMatrix (quaternion p)) a2 a1 a0")
  with assms(5)[OF True] have "toRotationMatrix (quaternion p) =
      mat_mul (mat_mul (axis_rotation a2 x) (axis_rotation a1 y)) (axis_rotation a0 z)"
    by (simp add: eulerAngles_exact_def)
  moreover have "recomposed ea p = compose True (a0, a1, a2) (z, y, x)"
    using True assms(1) e by (simp add: recomposed_def decompose_def)
  ultimately show ?thesis
    using assms(2-4) by (simp add: toRotationMatrix_compose)
next
  case False
  obtain x y z where e: "ea (toRotationMatrix (quaternion p)) a0 a1 a2 = (x, y, z)"
    by (cases "ea (toRotationMatrix (quaternion p)) a0 a1 a2")
  with assms(6)[OF False] have "toRotationMatrix (quaternion p) =
      mat_mul (mat_mul (axis_rotation a0 x) (axis_rotation a1 y)) (axis_rotation a2 z)"
    by (simp add: eulerAngles_exact_def)
  moreover have "recomposed ea p = compose False (a0, a1, a2) (x, y, z)"
    using False assms(1) e by (simp add: recomposed_def decompose_def)
  ultimately show ?thesis
    using assms(2-4) by (simp add: toRotationMatrix_compose)
qed

lemma recomposed_sign:
  assumes "axes p = (a0, a1, a2)" and "a0 < 3" and "a1 < 3" and "a2 < 3"
    and "squaredNorm (quaternion p) = 1"
    and "fixed p \<Longrightarrow> eulerAngles_exact ea (toRotationMatrix (quaternion p)) a2 a1 a0"
    and "\<not> fixed p \<Longrightarrow> eulerAngles_exact ea (toRotationMatrix (quaternion p)) a0 a1 a2"
  shows "recomposed ea p = quaternion p \<or> recomposed ea p = qneg (quaternion p)"
proof -
  have "squaredNorm (recomposed ea p) = 1"
    using assms(1-4) by (rule squaredNorm_recomposed)
  moreover have "toRotationMatrix (recomposed ea p) = toRotationMatrix (quaternion p)"
    using assms(1-4) assms(6,7) by (rule recomposed_matrix)
  ultimately show ?thesis using assms(5) by (simp add: same_rotation)
qed

lemma toRotationMatrix_qneg: "toRotationMatrix (qneg q) = toRotationMatrix q"
  by (simp add: toRotationMatrix_def qneg_def Let_def)

text \<open>
  C1, as amended: let \<open>q\<close> and the stored quaternion be unit quaternions, the axes be
  valid indices, and Eigen's \<^verbatim>\<open>eulerAngles\<close> be exact at the rotation matrices of \<open>q\<close>
  and of the stored quaternion for the axis order \<^verbatim>\<open>updateAngles\<close> passes it (reversed
  under the fixed frame). Then the quaternion recomposed after \<^verbatim>\<open>setQuaternion(q)\<close> and
  \<^verbatim>\<open>updateAngles()\<close> is within \<open>1e-6\<close> of \<open>q\<close> or of \<open>-q\<close>, under either frame.
\<close>

theorem roundtrip_up_to_sign:
  assumes "squaredNorm q = 1" and "squaredNorm (quaternion p) = 1"
    and "axes p = (a0, a1, a2)" and "a0 < 3" and "a1 < 3" and "a2 < 3"
    and "fixed p \<Longrightarrow> eulerAngles_exact ea (toRotationMatrix q) a2 a1 a0 \<and>
                    eulerAngles_exact ea (toRotationMatrix (quaternion p)) a2 a1 a0"
    and "\<not> fixed p \<Longrightarrow> eulerAngles_exact ea (toRotationMatrix q) a0 a1 a2 \<and>
                    eulerAngles_exact ea (toRotationMatrix (quaternion p)) a0 a1 a2"
  shows "approx_within (1 / 1000000) (roundtrip ea q p) q \<or>
         approx_within (1 / 1000000) (roundtrip ea q p) (qneg q)"
proof -
  let ?pq = "p\<lparr>quaternion := q\<rparr>"
  let ?r1 = "recomposed ea ?pq"
  have r1: "?r1 = q \<or> ?r1 = qneg q"
    using recomposed_sign[of ?pq a0 a1 a2 ea] assms by simp
  then have m1: "toRotationMatrix ?r1 = toRotationMatrix q"
    by (auto simp: toRotationMatrix_qneg)
  have u1: "squaredNorm ?r1 = 1"
    using r1 assms(1) by (auto simp: squaredNorm_qneg)
  have r2: "recomposed ea (p\<lparr>quaternion := ?r1\<rparr>) = ?r1 \<or>
            recomposed ea (p\<lparr>quaternion := ?r1\<rparr>) = qneg ?r1"
    using recomposed_sign[of "p\<lparr>quaternion := ?r1\<rparr>" a0 a1 a2 ea] assms(3-8) u1 m1
    by simp
  have r0: "recomposed ea p = quaternion p \<or> recomposed ea p = qneg (quaternion p)"
    using recomposed_sign[of p a0 a1 a2 ea] assms by simp
  have nn: "qneg (qneg q) = q" by (simp add: qneg_def)
  have "isApprox (roundtrip ea q p) q \<or> isApprox (roundtrip ea q p) (qneg q)"
  proof (cases "isApprox (quaternion p) q")
    case True
    then have "isApprox (qneg (quaternion p)) (qneg q)" by (simp add: isApprox_qneg)
    with True r0 show ?thesis by (auto simp: roundtrip_cases)
  next
    case False
    show ?thesis
    proof (cases "isApprox q ?r1")
      case True
      with False r1 show ?thesis by (auto simp: roundtrip_cases isApprox_refl)
    next
      case False
      with \<open>\<not> isApprox (quaternion p) q\<close> r1 r2 nn show ?thesis
        by (auto simp: roundtrip_cases isApprox_refl)
    qed
  qed
  then show ?thesis by (auto dest: isApprox_within_micro)
qed

text \<open>Runs on the quarter turn about \<open>x\<close> given as \<open>(-\<surd>2/2, -\<surd>2/2, 0, 0)\<close>.\<close>

lemma eulerAngles_exact_quarter:
  "eulerAngles_exact eulerAngles ((1, 0, 0), (0, 0, - 1), (0, 1, 0)) 2 (Suc 0) 0"
  "eulerAngles_exact eulerAngles ((1, 0, 0), (0, 0, - 1), (0, 1, 0)) 0 (Suc 0) 2"
  "eulerAngles_exact eulerAngles ((1, 0, 0), (0, 1, 0), (0, 0, 1)) 2 (Suc 0) 0"
  "eulerAngles_exact eulerAngles ((1, 0, 0), (0, 1, 0), (0, 0, 1)) 0 (Suc 0) 2"
  by (simp_all add: eulerAngles_exact_def eulerAngles_quarter_fixed eulerAngles_quarter
      eulerAngles_identity axis_rotation_def mat_mul_def)

lemma squaredNorm_quarter:
  "squaredNorm (Quaternion (- (sqrt 2 / 2)) (- (sqrt 2 / 2)) 0 0) = 1"
  "squaredNorm (Quaternion (sqrt 2 / 2) (sqrt 2 / 2) 0 0) = 1"
  "squaredNorm (Quaternion 1 0 0 0) = 1"
  by (simp_all add: squaredNorm_def Quaternion_def)

lemma qneg_quarter:
  "qneg (Quaternion (- (sqrt 2 / 2)) (- (sqrt 2 / 2)) 0 0) = Quaternion (sqrt 2 / 2) (sqrt 2 / 2) 0 0"
  by (simp add: qneg_def Quaternion_def)

lemma recomposed_quarter:
  assumes "q = Quaternion (- (sqrt 2 / 2)) (- (sqrt 2 / 2)) 0 0 \<or>
           q = Quaternion (sqrt 2 / 2) (sqrt 2 / 2) 0 0"
  shows "recomposed eulerAngles (identity_property\<lparr>quaternion := q\<rparr>) =
           Quaternion (sqrt 2 / 2) (sqrt 2 / 2) 0 0"
    and "recomposed eulerAngles
           (accept_axes ''xyz'' False (0, Suc 0, 2) identity_property\<lparr>quaternion := q\<rparr>) =
           Quaternion (sqrt 2 / 2) (sqrt 2 / 2) 0 0"
  using assms compose_quarter_fixed compose_quarter
  by (auto simp: recomposed_def decompose_def identity_property_def accept_axes_def
      toRotationMatrix_quarter toRotationMatrix_quarter_plus eulerAngles_quarter_fixed
      eulerAngles_quarter)

lemma roundtrip_quarter:
  "roundtrip eulerAngles (Quaternion (- (sqrt 2 / 2)) (- (sqrt 2 / 2)) 0 0) identity_property =
     Quaternion (sqrt 2 / 2) (sqrt 2 / 2) 0 0"
  "roundtrip eulerAngles (Quaternion (- (sqrt 2 / 2)) (- (sqrt 2 / 2)) 0 0)
     (accept_axes ''xyz'' False (0, Suc 0, 2) identity_property) =
     Quaternion (sqrt 2 / 2) (sqrt 2 / 2) 0 0"
proof -
  let ?m = "Quaternion (- (sqrt 2 / 2)) (- (sqrt 2 / 2)) 0 0"
  let ?x = "accept_axes ''xyz'' False (0, Suc 0, 2) identity_property"
  have a: "quaternion identity_property = Quaternion 1 0 0 0" "quaternion ?x = Quaternion 1 0 0 0"
    by (simp_all add: identity_property_def accept_axes_def)
  show "roundtrip eulerAngles ?m identity_property = Quaternion (sqrt 2 / 2) (sqrt 2 / 2) 0 0"
    by (simp add: roundtrip_cases a isApprox_quarter recomposed_quarter)
  show "roundtrip eulerAngles ?m ?x = Quaternion (sqrt 2 / 2) (sqrt 2 / 2) 0 0"
    by (simp add: roundtrip_cases a isApprox_quarter recomposed_quarter)
qed

text \<open>
  C1 for the quarter turn \<open>(-\<surd>2/2, -\<surd>2/2, 0, 0)\<close> on the property constructed for the
  identity rotation, under the fixed frame of \<open>rpy\<close> and under the rotating frame of
  \<open>xyz\<close>: it comes back as its negative.
\<close>

theorem roundtrip_up_to_sign_witness:
  "roundtrip eulerAngles (Quaternion (- (sqrt 2 / 2)) (- (sqrt 2 / 2)) 0 0) identity_property =
     qneg (Quaternion (- (sqrt 2 / 2)) (- (sqrt 2 / 2)) 0 0) \<and>
   (approx_within (1 / 1000000)
      (roundtrip eulerAngles (Quaternion (- (sqrt 2 / 2)) (- (sqrt 2 / 2)) 0 0) identity_property)
      (Quaternion (- (sqrt 2 / 2)) (- (sqrt 2 / 2)) 0 0) \<or>
    approx_within (1 / 1000000)
      (roundtrip eulerAngles (Quaternion (- (sqrt 2 / 2)) (- (sqrt 2 / 2)) 0 0) identity_property)
      (qneg (Quaternion (- (sqrt 2 / 2)) (- (sqrt 2 / 2)) 0 0))) \<and>
   (approx_within (1 / 1000000)
      (roundtrip eulerAngles (Quaternion (- (sqrt 2 / 2)) (- (sqrt 2 / 2)) 0 0)
         (accept_axes ''xyz'' False (0, 1, 2) identity_property))
      (Quaternion (- (sqrt 2 / 2)) (- (sqrt 2 / 2)) 0 0) \<or>
    approx_within (1 / 1000000)
      (roundtrip eulerAngles (Quaternion (- (sqrt 2 / 2)) (- (sqrt 2 / 2)) 0 0)
         (accept_axes ''xyz'' False (0, 1, 2) identity_property))
      (qneg (Quaternion (- (sqrt 2 / 2)) (- (sqrt 2 / 2)) 0 0)))"
proof -
  let ?m = "Quaternion (- (sqrt 2 / 2)) (- (sqrt 2 / 2)) 0 0"
  let ?x = "accept_axes ''xyz'' False (0, 1, 2) identity_property"
  have s: "fixed identity_property" "axes identity_property = (0, Suc 0, 2)"
    "quaternion identity_property = Quaternion 1 0 0 0"
    by (simp_all add: identity_property_def)
  have x: "\<not> fixed ?x" "axes ?x = (0, Suc 0, 2)" "quaternion ?x = Quaternion 1 0 0 0"
    by (simp_all add: identity_property_def accept_axes_def)
  have "approx_within (1 / 1000000) (roundtrip eulerAngles ?m identity_property) ?m \<or>
        approx_within (1 / 1000000) (roundtrip eulerAngles ?m identity_property) (qneg ?m)"
    using roundtrip_up_to_sign[of ?m identity_property 0 "Suc 0" 2 eulerAngles]
    by (simp add: s squaredNorm_quarter toRotationMatrix_quarter toRotationMatrix_identity
        eulerAngles_exact_quarter)
  moreover have "approx_within (1 / 1000000) (roundtrip eulerAngles ?m ?x) ?m \<or>
        approx_within (1 / 1000000) (roundtrip eulerAngles ?m ?x) (qneg ?m)"
    using roundtrip_up_to_sign[of ?m ?x 0 "Suc 0" 2 eulerAngles] x
    by (simp add: squaredNorm_quarter toRotationMatrix_quarter toRotationMatrix_identity
        eulerAngles_exact_quarter)
  ultimately show ?thesis
    by (simp add: roundtrip_quarter qneg_quarter)
qed

text \<open>
  C1 as stated fails: the unit quaternion \<open>(-1, 0, 0, 0)\<close> comes back as \<open>(1, 0, 0, 0)\<close>
  and the quarter turn \<open>(-\<surd>2/2, -\<surd>2/2, 0, 0)\<close> as \<open>(\<surd>2/2, \<surd>2/2, 0, 0)\<close>, neither within
  \<open>1e-6\<close> of what was set.
\<close>

theorem roundtrip_loses_sign:
  "squaredNorm (Quaternion (- 1) 0 0 0) = 1 \<and>
   roundtrip eulerAngles (Quaternion (- 1) 0 0 0) identity_property = Quaternion 1 0 0 0 \<and>
   \<not> approx_within (1 / 1000000) (Quaternion 1 0 0 0) (Quaternion (- 1) 0 0 0) \<and>
   squaredNorm (Quaternion (- (sqrt 2 / 2)) (- (sqrt 2 / 2)) 0 0) = 1 \<and>
   roundtrip eulerAngles (Quaternion (- (sqrt 2 / 2)) (- (sqrt 2 / 2)) 0 0) identity_property =
     Quaternion (sqrt 2 / 2) (sqrt 2 / 2) 0 0 \<and>
   \<not> approx_within (1 / 1000000) (Quaternion (sqrt 2 / 2) (sqrt 2 / 2) 0 0)
       (Quaternion (- (sqrt 2 / 2)) (- (sqrt 2 / 2)) 0 0)"
  by (simp add: roundtrip_minus_identity roundtrip_quarter squaredNorm_quarter)
    (simp add: approx_within_def Quaternion_def squaredNorm_def qdiff_def)

section \<open>The rotation kept by a change of axes\<close>

text \<open>
  C7, as amended: \<^verbatim>\<open>setEulerAxes\<close> with the stored specification changes and emits
  nothing; with another specification that does not parse it raises the parser's error,
  nothing having been stored. With another, valid specification, a unit stored quaternion
  and Eigen's \<^verbatim>\<open>eulerAngles\<close> exact at its rotation matrix for the axis order of the new
  frame, the specification, frame and axes are replaced, the stored quaternion is kept or
  replaced by its negative, so that its rotation matrix is the one before, the angles
  computed under the new convention compose to that rotation, and they are what the
  children show, in degrees.
\<close>

theorem setEulerAxes_keeps_rotation:
  "(axes_string p = s \<longrightarrow> setEulerAxes ea s p = Inr ([], p)) \<and>
   (axes_string p \<noteq> s \<longrightarrow>
      (case parse_axes s of
         Inl e \<Rightarrow> setEulerAxes ea s p = Inl e
       | Inr (fx, a0, a1, a2) \<Rightarrow>
           squaredNorm (quaternion p) = 1 \<and>
           (if fx then eulerAngles_exact ea (toRotationMatrix (quaternion p)) a2 a1 a0
            else eulerAngles_exact ea (toRotationMatrix (quaternion p)) a0 a1 a2) \<longrightarrow>
           (case setEulerAxes ea s p of
              Inl e \<Rightarrow> False
            | Inr (sg, p') \<Rightarrow>
                axes_string p' = s \<and> fixed p' = fx \<and> axes p' = (a0, a1, a2) \<and>
                (quaternion p' = quaternion p \<or> quaternion p' = qneg (quaternion p)) \<and>
                toRotationMatrix (quaternion p') = toRotationMatrix (quaternion p) \<and>
                toRotationMatrix
                  (compose fx (a0, a1, a2) (decompose ea (accept_axes s fx (a0, a1, a2) p))) =
                  toRotationMatrix (quaternion p) \<and>
                (\<not> ignore_child_updates p \<longrightarrow>
                   euler p' = degrees3 (decompose ea (accept_axes s fx (a0, a1, a2) p))))))"
proof (intro conjI impI)
  assume "axes_string p = s"
  then show "setEulerAxes ea s p = Inr ([], p)" by (rule setEulerAxes_same)
next
  assume ne: "axes_string p \<noteq> s"
  show "case parse_axes s of
         Inl e \<Rightarrow> setEulerAxes ea s p = Inl e
       | Inr (fx, a0, a1, a2) \<Rightarrow>
           squaredNorm (quaternion p) = 1 \<and>
           (if fx then eulerAngles_exact ea (toRotationMatrix (quaternion p)) a2 a1 a0
            else eulerAngles_exact ea (toRotationMatrix (quaternion p)) a0 a1 a2) \<longrightarrow>
           (case setEulerAxes ea s p of
              Inl e \<Rightarrow> False
            | Inr (sg, p') \<Rightarrow>
                axes_string p' = s \<and> fixed p' = fx \<and> axes p' = (a0, a1, a2) \<and>
                (quaternion p' = quaternion p \<or> quaternion p' = qneg (quaternion p)) \<and>
                toRotationMatrix (quaternion p') = toRotationMatrix (quaternion p) \<and>
                toRotationMatrix
                  (compose fx (a0, a1, a2) (decompose ea (accept_axes s fx (a0, a1, a2) p))) =
                  toRotationMatrix (quaternion p) \<and>
                (\<not> ignore_child_updates p \<longrightarrow>
                   euler p' = degrees3 (decompose ea (accept_axes s fx (a0, a1, a2) p))))"
  proof (cases "parse_axes s")
    case (Inl e)
    with ne show ?thesis by (simp add: setEulerAxes_error)
  next
    case (Inr r)
    obtain fx a0 a1 a2 where r: "r = (fx, a0, a1, a2)" by (cases r) auto
    let ?p1 = "accept_axes s fx (a0, a1, a2) p"
    have pa: "parse_axes s = Inr (fx, a0, a1, a2)" using Inr r by simp
    have run: "setEulerAxes ea s p = Inr (updateAngles ea ?p1)"
      using ne pa by (rule setEulerAxes_parsed)
    have rng: "a0 < 3" "a1 < 3" "a2 < 3" using parse_axes_range[OF pa] by simp_all
    have f: "axes ?p1 = (a0, a1, a2)" "fixed ?p1 = fx" "quaternion ?p1 = quaternion p"
      "axes_string ?p1 = s" "ignore_child_updates ?p1 = ignore_child_updates p"
      by simp_all
    have rc: "recomposed ea ?p1 = compose fx (a0, a1, a2) (decompose ea ?p1)"
      by (simp add: recomposed_def)
    {
      assume u: "squaredNorm (quaternion p) = 1"
        and ex: "if fx then eulerAngles_exact ea (toRotationMatrix (quaternion p)) a2 a1 a0
                 else eulerAngles_exact ea (toRotationMatrix (quaternion p)) a0 a1 a2"
      have sg: "recomposed ea ?p1 = quaternion p \<or> recomposed ea ?p1 = qneg (quaternion p)"
        using recomposed_sign[of ?p1 a0 a1 a2 ea] rng u ex by (simp split: if_splits)
      have m: "toRotationMatrix (recomposed ea ?p1) = toRotationMatrix (quaternion p)"
        using sg by (auto simp: toRotationMatrix_qneg)
      have q: "quaternion (snd (updateAngles ea ?p1)) = quaternion p \<or>
               quaternion (snd (updateAngles ea ?p1)) = qneg (quaternion p)"
        using sg by (simp add: updateAngles_quaternion)
      have "axes_string (snd (updateAngles ea ?p1)) = s \<and>
            fixed (snd (updateAngles ea ?p1)) = fx \<and>
            axes (snd (updateAngles ea ?p1)) = (a0, a1, a2) \<and>
            (quaternion (snd (updateAngles ea ?p1)) = quaternion p \<or>
             quaternion (snd (updateAngles ea ?p1)) = qneg (quaternion p)) \<and>
            toRotationMatrix (quaternion (snd (updateAngles ea ?p1))) =
              toRotationMatrix (quaternion p) \<and>
            toRotationMatrix (compose fx (a0, a1, a2) (decompose ea ?p1)) =
              toRotationMatrix (quaternion p) \<and>
            (\<not> ignore_child_updates p \<longrightarrow>
               euler (snd (updateAngles ea ?p1)) = degrees3 (decompose ea ?p1))"
        using q m rc by (auto simp: toRotationMatrix_qneg updateAngles_euler)
    }
    then show ?thesis
      by (cases fx) (simp_all add: pa run case_prod_beta)
  qed
qed

text \<open>
  Runs from the state \<^verbatim>\<open>setEulerAngles(5\<pi>/2, 0, 0, false)\<close> leaves on the property
  constructed for the identity rotation.
\<close>

lemma parse_axes_szyx: "parse_axes ''szyx'' = Inr (True, 2, 1, 0)"
  by (simp add: parse_axes_def constData_def axis_index_def)

lemma compose_quarter_reversed:
  "compose True (2, 1, 0) (0, 0, pi / 2) = Quaternion (sqrt 2 / 2) (sqrt 2 / 2) 0 0"
  by (simp add: compose_def AngleAxis_zero qmul_one AngleAxis_quarter)

lemma updateAngles_five_quarter:
  assumes "p = identity_property
        \<lparr>quaternion := Quaternion (- (sqrt 2 / 2)) (- (sqrt 2 / 2)) 0 0, euler := (450, 0, 0)\<rparr>"
  shows "quaternion (snd (updateAngles eulerAngles (accept_axes ''xyz'' False (0, Suc 0, 2) p))) =
           Quaternion (sqrt 2 / 2) (sqrt 2 / 2) 0 0"
    and "decompose eulerAngles (accept_axes ''xyz'' False (0, Suc 0, 2) p) = (pi / 2, 0, 0)"
    and "quaternion (snd (updateAngles eulerAngles (accept_axes ''szyx'' True (2, Suc 0, 0) p))) =
           Quaternion (sqrt 2 / 2) (sqrt 2 / 2) 0 0"
    and "decompose eulerAngles (accept_axes ''szyx'' True (2, Suc 0, 0) p) = (0, 0, pi / 2)"
proof -
  show d: "decompose eulerAngles (accept_axes ''xyz'' False (0, Suc 0, 2) p) = (pi / 2, 0, 0)"
    using assms eulerAngles_quarter toRotationMatrix_quarter
    by (simp add: decompose_def accept_axes_def)
  show e: "decompose eulerAngles (accept_axes ''szyx'' True (2, Suc 0, 0) p) = (0, 0, pi / 2)"
    using assms eulerAngles_quarter toRotationMatrix_quarter
    by (simp add: decompose_def accept_axes_def)
  have r: "recomposed eulerAngles (accept_axes ''xyz'' False (0, Suc 0, 2) p)
             = Quaternion (sqrt 2 / 2) (sqrt 2 / 2) 0 0"
    using d compose_quarter by (simp add: recomposed_def)
  have t: "recomposed eulerAngles (accept_axes ''szyx'' True (2, Suc 0, 0) p)
             = Quaternion (sqrt 2 / 2) (sqrt 2 / 2) 0 0"
    using e compose_quarter_reversed by (simp add: recomposed_def)
  have q: "quaternion (accept_axes s fx a p) = Quaternion (- (sqrt 2 / 2)) (- (sqrt 2 / 2)) 0 0"
    for s fx a using assms by simp
  show "quaternion (snd (updateAngles eulerAngles (accept_axes ''xyz'' False (0, Suc 0, 2) p))) =
           Quaternion (sqrt 2 / 2) (sqrt 2 / 2) 0 0"
    by (simp only: updateAngles_quaternion r q isApprox_quarter(2) if_False)
  show "quaternion (snd (updateAngles eulerAngles (accept_axes ''szyx'' True (2, Suc 0, 0) p))) =
           Quaternion (sqrt 2 / 2) (sqrt 2 / 2) 0 0"
    by (simp only: updateAngles_quaternion t q isApprox_quarter(2) if_False)
qed

text \<open>
  C7 on the stored specification \<open>rpy\<close>, the invalid one \<open>xyq\<close>, and the new ones \<open>xyz\<close>
  and \<open>szyx\<close> on a stored quarter turn \<open>(-\<surd>2/2, -\<surd>2/2, 0, 0)\<close> about \<open>x\<close>: the quaternion
  becomes its negative, the angles \<open>(90, 0, 0)\<close> and \<open>(0, 0, 90)\<close>.
\<close>

theorem setEulerAxes_keeps_rotation_witness:
  "setEulerAxes eulerAngles ''rpy'' identity_property = Inr ([], identity_property) \<and>
   setEulerAxes eulerAngles ''xyq'' identity_property = Inl (InvalidAxisChar (CHR ''x'')) \<and>
   (case setEulerAxes eulerAngles ''xyz''
           (identity_property
              \<lparr>quaternion := Quaternion (- (sqrt 2 / 2)) (- (sqrt 2 / 2)) 0 0,
               euler := (450, 0, 0)\<rparr>) of
      Inl e \<Rightarrow> False
    | Inr (sg, p') \<Rightarrow>
        axes_string p' = ''xyz'' \<and> \<not> fixed p' \<and> axes p' = (0, 1, 2) \<and>
        quaternion p' = qneg (Quaternion (- (sqrt 2 / 2)) (- (sqrt 2 / 2)) 0 0) \<and>
        toRotationMatrix (quaternion p') =
          toRotationMatrix (Quaternion (- (sqrt 2 / 2)) (- (sqrt 2 / 2)) 0 0) \<and>
        euler p' = (90, 0, 0)) \<and>
   (case setEulerAxes eulerAngles ''szyx''
           (identity_property
              \<lparr>quaternion := Quaternion (- (sqrt 2 / 2)) (- (sqrt 2 / 2)) 0 0,
               euler := (450, 0, 0)\<rparr>) of
      Inl e \<Rightarrow> False
    | Inr (sg, p') \<Rightarrow>
        axes_string p' = ''szyx'' \<and> fixed p' \<and> axes p' = (2, 1, 0) \<and>
        quaternion p' = qneg (Quaternion (- (sqrt 2 / 2)) (- (sqrt 2 / 2)) 0 0) \<and>
        toRotationMatrix (quaternion p') =
          toRotationMatrix (Quaternion (- (sqrt 2 / 2)) (- (sqrt 2 / 2)) 0 0) \<and>
        euler p' = (0, 0, 90))"
proof -
  let ?m = "Quaternion (- (sqrt 2 / 2)) (- (sqrt 2 / 2)) 0 0"
  let ?p = "identity_property\<lparr>quaternion := ?m, euler := (450, 0, 0)\<rparr>"
  have i: "axes_string identity_property = ''rpy''" "axes_string ?p = ''rpy''"
    "quaternion ?p = ?m" "\<not> ignore_child_updates ?p"
    by (simp_all add: identity_property_def)
  have a: "setEulerAxes eulerAngles ''rpy'' identity_property = Inr ([], identity_property)"
    using setEulerAxes_keeps_rotation[of identity_property "''rpy''" eulerAngles] i by simp
  have b: "setEulerAxes eulerAngles ''xyq'' identity_property = Inl (InvalidAxisChar (CHR ''x''))"
    using setEulerAxes_keeps_rotation[of identity_property "''xyq''" eulerAngles] i
    by (simp add: parse_axes_examples)
  have dg: "degrees3 (pi / 2, 0, 0) = (90, 0, 0)" "degrees3 (0, 0, pi / 2) = (0, 0, 90)"
    by (simp_all add: degrees3_def to_degrees_def)
  have c: "case setEulerAxes eulerAngles ''xyz'' ?p of
      Inl e \<Rightarrow> False
    | Inr (sg, p') \<Rightarrow>
        axes_string p' = ''xyz'' \<and> \<not> fixed p' \<and> axes p' = (0, 1, 2) \<and>
        quaternion p' = qneg ?m \<and>
        toRotationMatrix (quaternion p') = toRotationMatrix ?m \<and>
        euler p' = (90, 0, 0)"
    using setEulerAxes_keeps_rotation[of ?p "''xyz''" eulerAngles] i
      setEulerAxes_parsed[of ?p "''xyz''" False "(0, 1, 2)" eulerAngles]
    by (simp add: parse_axes_examples squaredNorm_quarter toRotationMatrix_quarter
        eulerAngles_exact_quarter updateAngles_five_quarter qneg_quarter dg case_prod_beta)
  have d: "case setEulerAxes eulerAngles ''szyx'' ?p of
      Inl e \<Rightarrow> False
    | Inr (sg, p') \<Rightarrow>
        axes_string p' = ''szyx'' \<and> fixed p' \<and> axes p' = (2, 1, 0) \<and>
        quaternion p' = qneg ?m \<and>
        toRotationMatrix (quaternion p') = toRotationMatrix ?m \<and>
        euler p' = (0, 0, 90)"
    using setEulerAxes_keeps_rotation[of ?p "''szyx''" eulerAngles] i
      setEulerAxes_parsed[of ?p "''szyx''" True "(2, 1, 0)" eulerAngles]
    by (simp add: parse_axes_szyx squaredNorm_quarter toRotationMatrix_quarter
        eulerAngles_exact_quarter updateAngles_five_quarter qneg_quarter dg case_prod_beta)
  from a b c d show ?thesis by (simp only: simp_thms)
qed

section \<open>The second call of setQuaternion\<close>

text \<open>
  \<^verbatim>\<open>setQuaternion\<close> of either class changes and emits nothing only when the guard of
  its first line holds, and the quaternion a call leaves stored is approximately \<open>q\<close>
  when the stored one was or when \<open>q\<close> is approximately the quaternion recomposed from its
  own Euler angles.
\<close>

lemma setQuaternion_stored:
  "isApprox (quaternion (snd (setQuaternion ea q p))) q \<longleftrightarrow>
     isApprox (quaternion p) q \<or> isApprox q (recomposed ea (p\<lparr>quaternion := q\<rparr>))"
  using isApprox_sym[of "recomposed ea (p\<lparr>quaternion := q\<rparr>)" q]
  by (auto simp: setQuaternion_def updateAngles_quaternion isApprox_refl)

lemma updateAngles_signals: "fst (updateAngles ea p) \<noteq> []"
  by (simp add: updateAngles_def Let_def store_angles_signals)

lemma setQuaternion_noop:
  "setQuaternion ea q p = ([], p) \<longleftrightarrow> isApprox (quaternion p) q"
proof
  assume "setQuaternion ea q p = ([], p)"
  then have "fst (setQuaternion ea q p) = []" by simp
  then show "isApprox (quaternion p) q"
    using updateAngles_signals[of ea "p\<lparr>quaternion := q\<rparr>"]
    by (simp add: setQuaternion_def split: if_splits)
qed (rule setQuaternion_approx)

lemma deliver_signals: "fst (deliver sg rp) = [] \<longleftrightarrow> sg = []"
  by (cases sg) (simp_all add: Let_def)

lemma RotationProperty_setQuaternion_noop:
  "RotationProperty_setQuaternion ea q rp = ([], rp) \<longleftrightarrow> isApprox (getQuaternion rp) q"
proof
  assume "RotationProperty_setQuaternion ea q rp = ([], rp)"
  then have "fst (RotationProperty_setQuaternion ea q rp) = []" by simp
  then show "isApprox (getQuaternion rp) q"
    using updateAngles_signals[of ea "(euler_property rp)\<lparr>quaternion := q\<rparr>"]
    by (simp add: RotationProperty_setQuaternion_def Let_def deliver_signals setQuaternion_def
        getQuaternion_def split: if_splits)
qed (rule RotationProperty_setQuaternion_approx)

lemma RotationProperty_setQuaternion_stored:
  "getQuaternion (snd (RotationProperty_setQuaternion ea q rp)) =
     quaternion (snd (setQuaternion ea q (euler_property rp)))"
  by (simp add: RotationProperty_setQuaternion_def getQuaternion_def setQuaternion_approx Let_def)

text \<open>
  C9, as amended: for \<^verbatim>\<open>EulerProperty::setQuaternion\<close> and for
  \<^verbatim>\<open>RotationProperty::setQuaternion\<close>, a call with \<open>q\<close> approximately the stored
  quaternion changes and emits nothing; and the second of two calls with the same \<open>q\<close>
  changes and emits nothing if and only if \<open>q\<close> was approximately the stored quaternion
  before the first call or is approximately the quaternion recomposed from the Euler
  angles of \<open>q\<close> under the axes of the property.
\<close>

theorem setQuaternion_repeated:
  "(isApprox (quaternion p) q \<longrightarrow> setQuaternion ea q p = ([], p)) \<and>
   (isApprox (getQuaternion rp) q \<longrightarrow> RotationProperty_setQuaternion ea q rp = ([], rp)) \<and>
   ((setQuaternion ea q (snd (setQuaternion ea q p)) = ([], snd (setQuaternion ea q p))) =
      (isApprox (quaternion p) q \<or> isApprox q (recomposed ea (p\<lparr>quaternion := q\<rparr>)))) \<and>
   ((RotationProperty_setQuaternion ea q (snd (RotationProperty_setQuaternion ea q rp)) =
       ([], snd (RotationProperty_setQuaternion ea q rp))) =
      (isApprox (getQuaternion rp) q \<or>
       isApprox q (recomposed ea ((euler_property rp)\<lparr>quaternion := q\<rparr>))))"
proof (intro conjI impI)
  assume "isApprox (quaternion p) q"
  then show "setQuaternion ea q p = ([], p)" by (rule setQuaternion_approx)
next
  assume "isApprox (getQuaternion rp) q"
  then show "RotationProperty_setQuaternion ea q rp = ([], rp)"
    by (rule RotationProperty_setQuaternion_approx)
next
  show "(setQuaternion ea q (snd (setQuaternion ea q p)) = ([], snd (setQuaternion ea q p))) =
      (isApprox (quaternion p) q \<or> isApprox q (recomposed ea (p\<lparr>quaternion := q\<rparr>)))"
    by (simp only: setQuaternion_noop setQuaternion_stored)
next
  have "getQuaternion rp = quaternion (euler_property rp)" by (simp add: getQuaternion_def)
  then show "(RotationProperty_setQuaternion ea q (snd (RotationProperty_setQuaternion ea q rp)) =
       ([], snd (RotationProperty_setQuaternion ea q rp))) =
      (isApprox (getQuaternion rp) q \<or>
       isApprox q (recomposed ea ((euler_property rp)\<lparr>quaternion := q\<rparr>)))"
    by (simp only: RotationProperty_setQuaternion_noop RotationProperty_setQuaternion_stored
        setQuaternion_stored)
qed

lemma recomposed_quarter_plus:
  "recomposed eulerAngles
     ((euler_property identity_rotation)\<lparr>quaternion := Quaternion (sqrt 2 / 2) (sqrt 2 / 2) 0 0\<rparr>) =
     Quaternion (sqrt 2 / 2) (sqrt 2 / 2) 0 0"
  by (simp add: identity_rotation_def recomposed_quarter)

text \<open>
  C9 with the identity rotation set on the properties constructed for it, and with the
  quarter turn \<open>(\<surd>2/2, \<surd>2/2, 0, 0)\<close> about \<open>x\<close> set twice on each of them.
\<close>

theorem setQuaternion_repeated_witness:
  "setQuaternion eulerAngles (Quaternion 1 0 0 0) identity_property = ([], identity_property) \<and>
   RotationProperty_setQuaternion eulerAngles (Quaternion 1 0 0 0) identity_rotation =
     ([], identity_rotation) \<and>
   quaternion (snd (setQuaternion eulerAngles (Quaternion (sqrt 2 / 2) (sqrt 2 / 2) 0 0)
                      identity_property)) = Quaternion (sqrt 2 / 2) (sqrt 2 / 2) 0 0 \<and>
   setQuaternion eulerAngles (Quaternion (sqrt 2 / 2) (sqrt 2 / 2) 0 0)
     (snd (setQuaternion eulerAngles (Quaternion (sqrt 2 / 2) (sqrt 2 / 2) 0 0) identity_property)) =
     ([], snd (setQuaternion eulerAngles (Quaternion (sqrt 2 / 2) (sqrt 2 / 2) 0 0)
                 identity_property)) \<and>
   getQuaternion (snd (RotationProperty_setQuaternion eulerAngles
                         (Quaternion (sqrt 2 / 2) (sqrt 2 / 2) 0 0) identity_rotation)) =
     Quaternion (sqrt 2 / 2) (sqrt 2 / 2) 0 0 \<and>
   RotationProperty_setQuaternion eulerAngles (Quaternion (sqrt 2 / 2) (sqrt 2 / 2) 0 0)
     (snd (RotationProperty_setQuaternion eulerAngles (Quaternion (sqrt 2 / 2) (sqrt 2 / 2) 0 0)
             identity_rotation)) =
     ([], snd (RotationProperty_setQuaternion eulerAngles
                 (Quaternion (sqrt 2 / 2) (sqrt 2 / 2) 0 0) identity_rotation))"
proof -
  let ?q = "Quaternion (sqrt 2 / 2) (sqrt 2 / 2) 0 0"
  have i: "quaternion identity_property = Quaternion 1 0 0 0"
    "getQuaternion identity_rotation = Quaternion 1 0 0 0"
    by (simp_all add: identity_property_def identity_rotation_def getQuaternion_def)
  have a: "setQuaternion eulerAngles (Quaternion 1 0 0 0) identity_property = ([], identity_property)"
    "RotationProperty_setQuaternion eulerAngles (Quaternion 1 0 0 0) identity_rotation =
       ([], identity_rotation)"
    using setQuaternion_repeated[of identity_property "Quaternion 1 0 0 0" eulerAngles identity_rotation]
    by (simp_all add: i isApprox_refl)
  have r: "isApprox ?q (recomposed eulerAngles (identity_property\<lparr>quaternion := ?q\<rparr>))"
    "isApprox ?q (recomposed eulerAngles ((euler_property identity_rotation)\<lparr>quaternion := ?q\<rparr>))"
    by (simp_all add: recomposed_quarter recomposed_quarter_plus isApprox_refl)
  have b: "setQuaternion eulerAngles ?q (snd (setQuaternion eulerAngles ?q identity_property)) =
       ([], snd (setQuaternion eulerAngles ?q identity_property))"
    "RotationProperty_setQuaternion eulerAngles ?q
       (snd (RotationProperty_setQuaternion eulerAngles ?q identity_rotation)) =
       ([], snd (RotationProperty_setQuaternion eulerAngles ?q identity_rotation))"
    using setQuaternion_repeated[of identity_property ?q eulerAngles identity_rotation] r
    by simp_all
  have c: "quaternion (snd (setQuaternion eulerAngles ?q identity_property)) = ?q"
    by (simp add: setQuaternion_quarter_turn)
  have d: "getQuaternion (snd (RotationProperty_setQuaternion eulerAngles ?q identity_rotation)) = ?q"
    by (simp add: RotationProperty_setQuaternion_stored identity_rotation_def setQuaternion_quarter_turn)
  from a b c d show ?thesis by (simp only: simp_thms)
qed

end
